theory Spec2Isabelle
  imports Main "HOL-Library.Multiset"
begin

section \<open>Data model (types.ts)\<close>

text \<open>
  The six values of the enum \<open>ImportStatus\<close>.
\<close>

datatype ImportStatus = ATRASADO | CRITICO | ALERTA | PRODUCAO | EMBARCADO | NACIONAL

text \<open>
  A JavaScript \<open>Date\<close> object: either the invalid date (time value NaN) or a time
  value in milliseconds since the epoch.
\<close>

datatype jsdate = InvalidDate | DateMs int

text \<open>
  A value found under a column key of a row produced by \<open>sheet_to_json\<close> (the row is
  typed \<open>any\<close>): a missing key reads as \<open>undefined\<close>; cells are booleans, numbers,
  strings or (with \<open>cellDates\<close>) dates. Numbers are modelled as integers
  (whole-number cells), so a fractional date serial is outside the model.
\<close>

datatype cell = Undefined | Null | Bool bool | Num int | Str string | DateCell jsdate

record ImportItem =
  item_id :: string
  NUMERO_SC :: cell
  NUMERO_PO :: cell
  NUMERO_PC :: cell
  NECESS_SC :: "jsdate option"
  NECESS_PC :: jsdate
  RAZAO_FORNEC :: cell
  DESCR_PROD :: cell
  VOLUME_PC :: cell
  DIAS_PARA_NECESS :: int
  status :: ImportStatus
  DATA_CHECK_EMBARQUE :: "string option"
  isExcluded :: bool

section \<open>Status classifier (calculateStatus)\<close>

definition calculateStatus :: "int \<Rightarrow> ImportStatus" where
  "calculateStatus daysDiff =
     (if daysDiff < 0 then ATRASADO
      else if daysDiff < 30 then CRITICO
      else if daysDiff \<le> 60 then ALERTA
      else PRODUCAO)"

section \<open>Host environment and library functions\<close>

text \<open>
  What the code takes from its JavaScript host is passed in explicitly: the result of
  \<open>new Date(string)\<close>, the result of \<open>String(date)\<close>, and the offset of local time
  from UTC in milliseconds (taken as fixed).
\<close>

record host =
  parseDate :: "string \<Rightarrow> jsdate"
  dateToString :: "jsdate \<Rightarrow> string"
  tzOffset :: int

text \<open>\<open>new Date(ms)\<close>: a time value beyond 8.64e15 ms gives the invalid date.\<close>

definition newDate :: "int \<Rightarrow> jsdate" where
  "newDate ms = (if \<bar>ms\<bar> \<le> 8640000000000000 then DateMs ms else InvalidDate)"

text \<open>
  The three date-fns functions the import uses, on time values, for a local time at a
  fixed offset from UTC: \<open>isValid\<close>, \<open>startOfDay\<close> (local midnight of the instant's
  day) and \<open>differenceInCalendarDays\<close> (difference of the local day numbers).
\<close>

definition isValid :: "jsdate \<Rightarrow> bool" where
  "isValid d = (d \<noteq> InvalidDate)"

definition msPerDay :: int where
  "msPerDay = 86400000"

definition startOfDay :: "int \<Rightarrow> int \<Rightarrow> int" where
  "startOfDay tz t = t - (t + tz) mod msPerDay"

definition differenceInCalendarDays :: "int \<Rightarrow> int \<Rightarrow> int \<Rightarrow> int" where
  "differenceInCalendarDays tz dateLeft dateRight =
     (dateLeft + tz) div msPerDay - (dateRight + tz) div msPerDay"

subsection \<open>JavaScript coercions\<close>

text \<open>Truthiness, as tested by \<open>!x\<close>, \<open>x || y\<close> and \<open>if (x)\<close>.\<close>

fun truthy :: "cell \<Rightarrow> bool" where
  "truthy Undefined = False"
| "truthy Null = False"
| "truthy (Bool b) = b"
| "truthy (Num n) = (n \<noteq> 0)"
| "truthy (Str s) = (s \<noteq> [])"
| "truthy (DateCell d) = True"

definition orElse :: "cell \<Rightarrow> cell \<Rightarrow> cell" where
  "orElse a b = (if truthy a then a else b)"

text \<open>Decimal rendering of an array index, as the template literal \<open>`${idx}`\<close> gives.\<close>

definition digit :: "nat \<Rightarrow> char" where
  "digit n = ''0123456789'' ! n"

function show_nat :: "nat \<Rightarrow> string" where
  "show_nat n = (if n < 10 then [digit n] else show_nat (n div 10) @ [digit (n mod 10)])"
  by pat_completeness auto
termination
  by (relation "measure (\<lambda>n. n)") auto

declare show_nat.simps [simp del]

definition show_int :: "int \<Rightarrow> string" where
  "show_int i = (if i < 0 then CHR ''-'' # show_nat (nat (- i)) else show_nat (nat i))"

text \<open>
  \<open>String(x)\<close> and the conversion inside a template literal. An integer is rendered
  in decimal, which is what JavaScript prints for magnitudes below 1e21.
\<close>

fun toStr :: "host \<Rightarrow> cell \<Rightarrow> string" where
  "toStr h Undefined = ''undefined''"
| "toStr h Null = ''null''"
| "toStr h (Bool b) = (if b then ''true'' else ''false'')"
| "toStr h (Num n) = show_int n"
| "toStr h (Str s) = s"
| "toStr h (DateCell d) = dateToString h d"

text \<open>\<open>String.prototype.trim\<close>, on the white space of the 8-bit range.\<close>

definition isSpace :: "char \<Rightarrow> bool" where
  "isSpace c = (c \<in> set [CHR 0x09, CHR 0x0A, CHR 0x0B, CHR 0x0C, CHR 0x0D, CHR 0x20, CHR 0xA0])"

definition trim :: "string \<Rightarrow> string" where
  "trim s = rev (dropWhile isSpace (rev (dropWhile isSpace s)))"

section \<open>Override store (localStorage)\<close>

text \<open>
  The one exception the code can raise on its own data: a property access on \<open>null\<close>.
\<close>

datatype error = TypeError

record StoredRecord =
  date :: string

text \<open>
  One localStorage entry, as \<open>getItem\<close> followed by \<open>JSON.parse\<close> sees it: no entry
  (or an empty string), a string \<open>JSON.parse\<close> rejects, the JSON text \<open>null\<close>, or the
  JSON text of an object. The properties of a stored object are taken to be records
  \<open>{date}\<close>, as the declared type \<open>Record<string, StoredRecord>\<close> says and as every
  write of the application produces. JSON text of a number, a string, a boolean or an
  array is not represented.
\<close>

datatype entry = Missing | Unparsable | ParsedNull | Parsed "string \<rightharpoonup> StoredRecord"

text \<open>
  The value a load returns: \<open>null\<close>, or a plain object given by its own properties.
\<close>

datatype jsvalue = JNull | JObject "string \<rightharpoonup> StoredRecord"

text \<open>
  The value of \<open>obj[k]\<close> on a plain object: an own property, else a property inherited
  from \<open>Object.prototype\<close> (a function, or the prototype itself for \<open>__proto__\<close>),
  else \<open>undefined\<close>.
\<close>

datatype propval = PUndefined | PInherited | PRecord StoredRecord

definition objectPrototypeKeys :: "string list" where
  "objectPrototypeKeys =
     [''constructor'', ''__defineGetter__'', ''__defineSetter__'', ''hasOwnProperty'',
      ''__lookupGetter__'', ''__lookupSetter__'', ''isPrototypeOf'', ''propertyIsEnumerable'',
      ''toString'', ''valueOf'', ''__proto__'', ''toLocaleString'']"

definition readProp :: "(string \<rightharpoonup> StoredRecord) \<Rightarrow> string \<Rightarrow> propval" where
  "readProp m k =
     (case m k of
        Some r \<Rightarrow> PRecord r
      | None \<Rightarrow> if k \<in> set objectPrototypeKeys then PInherited else PUndefined)"

text \<open>\<open>v[k]\<close> for a loaded value: reading a property of \<open>null\<close> throws.\<close>

definition getProp :: "jsvalue \<Rightarrow> string \<Rightarrow> error + propval" where
  "getProp v k = (case v of JNull \<Rightarrow> Inl TypeError | JObject m \<Rightarrow> Inr (readProp m k))"

text \<open>Truthiness of a property value, and its \<open>.date\<close>.\<close>

fun truthyProp :: "propval \<Rightarrow> bool" where
  "truthyProp PUndefined = False"
| "truthyProp PInherited = True"
| "truthyProp (PRecord r) = True"

fun propDate :: "propval \<Rightarrow> string option" where
  "propDate (PRecord r) = Some (date r)"
| "propDate PInherited = None"
| "propDate PUndefined = None"

text \<open>
  \<open>obj[k] = r\<close> on a plain object: the key \<open>__proto__\<close>, unless it is an own property,
  reaches the inherited setter, which replaces the prototype and adds no property; every
  other key becomes (or stays) an own property.
\<close>

definition setProp ::
  "(string \<rightharpoonup> StoredRecord) \<Rightarrow> string \<Rightarrow> StoredRecord \<Rightarrow> (string \<rightharpoonup> StoredRecord)" where
  "setProp m k r = (if k = ''__proto__'' \<and> m k = None then m else m(k \<mapsto> r))"

record LocalStorage =
  importflow_shipped_items :: entry
  importflow_excluded_items :: entry

text \<open>
  The load: a missing entry and a parse error give the empty object; whatever parses is
  returned as it is. \<open>JSON.stringify\<close> followed by \<open>JSON.parse\<close> gives back the own
  properties of an object. The timestamp \<open>new Date().toISOString()\<close> of a save is
  passed in as \<open>nowIso\<close>.
\<close>

definition loadShippedMap :: "LocalStorage \<Rightarrow> jsvalue" where
  "loadShippedMap ls =
     (case importflow_shipped_items ls of
        Missing \<Rightarrow> JObject Map.empty
      | Unparsable \<Rightarrow> JObject Map.empty
      | ParsedNull \<Rightarrow> JNull
      | Parsed m \<Rightarrow> JObject m)"

definition saveShippedItem :: "string \<Rightarrow> string \<Rightarrow> LocalStorage \<Rightarrow> error + LocalStorage" where
  "saveShippedItem ident nowIso ls =
     (case loadShippedMap ls of
        JNull \<Rightarrow> Inl TypeError
      | JObject current \<Rightarrow>
          Inr (ls\<lparr>importflow_shipped_items := Parsed (setProp current ident \<lparr>date = nowIso\<rparr>)\<rparr>))"

definition removeShippedItem :: "string \<Rightarrow> LocalStorage \<Rightarrow> error + LocalStorage" where
  "removeShippedItem ident ls =
     (case loadShippedMap ls of
        JNull \<Rightarrow> Inl TypeError
      | JObject current \<Rightarrow>
          if truthyProp (readProp current ident)
          then Inr (ls\<lparr>importflow_shipped_items := Parsed (current(ident := None))\<rparr>)
          else Inr ls)"

definition loadExcludedMap :: "LocalStorage \<Rightarrow> jsvalue" where
  "loadExcludedMap ls =
     (case importflow_excluded_items ls of
        Missing \<Rightarrow> JObject Map.empty
      | Unparsable \<Rightarrow> JObject Map.empty
      | ParsedNull \<Rightarrow> JNull
      | Parsed m \<Rightarrow> JObject m)"

definition saveExcludedItem :: "string \<Rightarrow> string \<Rightarrow> LocalStorage \<Rightarrow> error + LocalStorage" where
  "saveExcludedItem ident nowIso ls =
     (case loadExcludedMap ls of
        JNull \<Rightarrow> Inl TypeError
      | JObject current \<Rightarrow>
          Inr (ls\<lparr>importflow_excluded_items := Parsed (setProp current ident \<lparr>date = nowIso\<rparr>)\<rparr>))"

definition removeExcludedItem :: "string \<Rightarrow> LocalStorage \<Rightarrow> error + LocalStorage" where
  "removeExcludedItem ident ls =
     (case loadExcludedMap ls of
        JNull \<Rightarrow> Inl TypeError
      | JObject current \<Rightarrow>
          if truthyProp (readProp current ident)
          then Inr (ls\<lparr>importflow_excluded_items := Parsed (current(ident := None))\<rparr>)
          else Inr ls)"

text \<open>The own entry a loaded value holds for an identity, if any.\<close>

definition storedEntry :: "jsvalue \<Rightarrow> string \<Rightarrow> StoredRecord option" where
  "storedEntry v k = (case v of JNull \<Rightarrow> None | JObject m \<Rightarrow> m k)"

section \<open>Record builder (processExcelData)\<close>

text \<open>
  A decoded spreadsheet row: \<open>row k\<close> is the value of \<open>row['k']\<close>, \<open>Undefined\<close> for
  a column the row does not have.
\<close>

type_synonym row = "string \<Rightarrow> cell"

text \<open>
  The callback of \<open>jsonData.map\<close> is given in four parts, each named after what it
  computes in the source: the national test (line 93), the test for a ghost row
  (line 96), the identity (lines 100 to 110), and the record the callback returns
  (lines 100 to 174) as a function of the two store reads.
\<close>

definition isNational :: "host \<Rightarrow> row \<Rightarrow> bool" where
  "isNational h row =
     (let poRaw = row ''NUMERO_PO''
      in poRaw = Undefined \<or> poRaw = Null \<or> trim (toStr h poRaw) = [])"

definition isGhostRow :: "row \<Rightarrow> bool" where
  "isGhostRow row =
     (\<not> truthy (row ''NUMERO_PO'') \<and> \<not> truthy (row ''NUMERO_PC'') \<and> \<not> truthy (row ''DESCR_PROD''))"

definition itemId :: "host \<Rightarrow> row \<Rightarrow> nat \<Rightarrow> string" where
  "itemId h row idx =
     (let poRaw = row ''NUMERO_PO'';
          po = (if isNational h row then Str [] else poRaw);
          pc = orElse (row ''NUMERO_PC'') (Str ''N/A'');
          uniqueSuffix = show_nat idx
      in if isNational h row
         then ''NAT-'' @ toStr h pc @ ''-'' @ uniqueSuffix
         else toStr h po @ ''-'' @ toStr h pc @ ''-'' @ uniqueSuffix)"

text \<open>
  The record of a row that is not skipped. \<open>today\<close> is the start of the day of the clock
  reading of line 87 and \<open>now\<close> the clock reading of line 113, made in this row's
  callback; \<open>shipped\<close> and \<open>excluded\<close> are the values of \<open>shippedMap[id]\<close> and
  \<open>excludedMap[id]\<close>. After the validity test of line 125 the need-date is a valid
  date, so it is kept as its time value \<open>necessDate\<close>.
\<close>

definition buildItem ::
  "host \<Rightarrow> int \<Rightarrow> int \<Rightarrow> row \<Rightarrow> nat \<Rightarrow> propval \<Rightarrow> propval \<Rightarrow> ImportItem" where
  "buildItem h today now row idx shipped excluded =
     (let poRaw = row ''NUMERO_PO'';
          po = (if isNational h row then Str [] else poRaw);
          pc = orElse (row ''NUMERO_PC'') (Str ''N/A'');
          sc = row ''NUMERO_SC'';
          produto = orElse (row ''DESCR_PROD'') (Str []);
          rawDate = row ''NECESS_PC'';
          parsed = (case rawDate of
                      DateCell d \<Rightarrow> d
                    | Str str \<Rightarrow> parseDate h str
                    | Num n \<Rightarrow> newDate ((n - 25569) * 86400 * 1000)
                    | _ \<Rightarrow> DateMs now);
          necessDate = (case parsed of InvalidDate \<Rightarrow> today | DateMs t \<Rightarrow> t);
          rawDateSC = row ''NECESS_SC'';
          necessSC =
            (if truthy rawDateSC
             then (case (case rawDateSC of
                           DateCell d \<Rightarrow> Some d
                         | Str str \<Rightarrow> Some (parseDate h str)
                         | Num n \<Rightarrow> Some (newDate ((n - 25569) * 86400 * 1000))
                         | _ \<Rightarrow> None) of
                     None \<Rightarrow> None
                   | Some d \<Rightarrow> if \<not> isValid d then None else Some d)
             else None);
          daysDiff = differenceInCalendarDays (tzOffset h) necessDate today;
          isShipped = truthyProp shipped;
          st = (if isNational h row then NACIONAL
                else if isShipped then EMBARCADO else calculateStatus daysDiff)
      in \<lparr>item_id = itemId h row idx,
          NUMERO_SC = sc,
          NUMERO_PO = po,
          NUMERO_PC = pc,
          NECESS_SC = necessSC,
          NECESS_PC = DateMs necessDate,
          RAZAO_FORNEC = orElse (row ''RAZAO_FORNEC'') (Str ''-''),
          DESCR_PROD = orElse produto (Str ''-''),
          VOLUME_PC = orElse (row ''VOLUME_PC'') (Str ''-''),
          DIAS_PARA_NECESS = daysDiff,
          status = st,
          DATA_CHECK_EMBARQUE =
            (if \<not> isNational h row \<and> truthyProp shipped then propDate shipped else None),
          isExcluded = truthyProp excluded\<rparr>)"

text \<open>
  The callback: \<open>Inr None\<close> where it returns \<open>null\<close>, \<open>Inl TypeError\<close> where a store
  read throws. The shipped map is read only for a row that is not national (lines 156
  and 172), the excluded map for every row that is not skipped (line 173).
\<close>

definition processRow ::
  "host \<Rightarrow> jsvalue \<Rightarrow> jsvalue \<Rightarrow> int \<Rightarrow> int \<Rightarrow> row \<Rightarrow> nat \<Rightarrow> error + ImportItem option" where
  "processRow h shippedMap excludedMap today now row idx =
     (if isGhostRow row then Inr None
      else
        case (if isNational h row then Inr PUndefined
              else getProp shippedMap (itemId h row idx)) of
          Inl e \<Rightarrow> Inl e
        | Inr shipped \<Rightarrow>
            (case getProp excludedMap (itemId h row idx) of
               Inl e \<Rightarrow> Inl e
             | Inr excluded \<Rightarrow> Inr (Some (buildItem h today now row idx shipped excluded))))"

text \<open>
  What \<open>map\<close> followed by the filter of the nulls gives: the first callback that throws
  ends the import with its exception; otherwise the items are kept in row order.
\<close>

fun collect :: "(error + 'a option) list \<Rightarrow> error + 'a list" where
  "collect [] = Inr []"
| "collect (Inl e # rs) = Inl e"
| "collect (Inr None # rs) = collect rs"
| "collect (Inr (Some x) # rs) = (case collect rs of Inl e \<Rightarrow> Inl e | Inr xs \<Rightarrow> Inr (x # xs))"

text \<open>
  The import of the decoded rows. Both override maps are loaded once; \<open>t0\<close> is the
  clock reading from which \<open>today\<close> is taken (line 87) and \<open>clock idx\<close> the reading
  made in the callback of row \<open>idx\<close> (line 113). \<open>Inl\<close> is the rejected promise.
\<close>

definition processExcelData ::
  "host \<Rightarrow> LocalStorage \<Rightarrow> int \<Rightarrow> (nat \<Rightarrow> int) \<Rightarrow> row list \<Rightarrow> error + ImportItem list" where
  "processExcelData h ls t0 clock jsonData =
     (let shippedMap = loadShippedMap ls;
          excludedMap = loadExcludedMap ls;
          today = startOfDay (tzOffset h) t0
      in collect
           (map (\<lambda>(idx, row). processRow h shippedMap excludedMap today (clock idx) row idx)
              (List.enumerate 0 jsonData)))"

section \<open>Application state and handlers (App)\<close>

record AppState =
  items :: "ImportItem list"
  localStorage :: LocalStorage

text \<open>
  The upload handler: \<open>None\<close> stands for no file or a file the spreadsheet decoder
  rejects, \<open>Some jsonData\<close> for the decoded rows of the first sheet. A rejected import is
  caught and reported, and the collection stays as it is.
\<close>

definition handleFileUpload ::
  "host \<Rightarrow> int \<Rightarrow> (nat \<Rightarrow> int) \<Rightarrow> row list option \<Rightarrow> AppState \<Rightarrow> AppState" where
  "handleFileUpload h t0 clock file s =
     (case file of
        None \<Rightarrow> s
      | Some jsonData \<Rightarrow>
          (case processExcelData h (localStorage s) t0 clock jsonData of
             Inl e \<Rightarrow> s
           | Inr data \<Rightarrow> s\<lparr>items := data\<rparr>))"

text \<open>
  The four record handlers write the store first; an exception thrown there leaves the
  handler before \<open>setItems\<close> is called (\<open>Inl\<close>, with the state as it was). Otherwise
  \<open>setItems(prev => prev.map(...))\<close> replaces the collection by its image. In
  \<open>handleMarkShipped\<close>, \<open>storeIso\<close> is the timestamp taken inside \<open>saveShippedItem\<close>
  and \<open>stamp k\<close> the one taken when the callback reaches position \<open>k\<close>.
\<close>

definition handleMarkShipped ::
  "string \<Rightarrow> string \<Rightarrow> (nat \<Rightarrow> string) \<Rightarrow> AppState \<Rightarrow> error + AppState" where
  "handleMarkShipped ident storeIso stamp s =
     (case saveShippedItem ident storeIso (localStorage s) of
        Inl e \<Rightarrow> Inl e
      | Inr ls \<Rightarrow>
          Inr \<lparr>items = map (\<lambda>(k, item).
                               if item_id item = ident \<and> status item \<noteq> NACIONAL
                               then item\<lparr>status := EMBARCADO,
                                         DATA_CHECK_EMBARQUE := Some (stamp k)\<rparr>
                               else item) (List.enumerate 0 (items s)),
               localStorage = ls\<rparr>)"

definition handleUnmarkShipped :: "string \<Rightarrow> AppState \<Rightarrow> error + AppState" where
  "handleUnmarkShipped ident s =
     (case removeShippedItem ident (localStorage s) of
        Inl e \<Rightarrow> Inl e
      | Inr ls \<Rightarrow>
          Inr \<lparr>items = map (\<lambda>item.
                               if item_id item = ident \<and> status item = EMBARCADO
                               then item\<lparr>status := calculateStatus (DIAS_PARA_NECESS item),
                                         DATA_CHECK_EMBARQUE := None\<rparr>
                               else item) (items s),
               localStorage = ls\<rparr>)"

definition handleExclude :: "string \<Rightarrow> string \<Rightarrow> AppState \<Rightarrow> error + AppState" where
  "handleExclude ident nowIso s =
     (case saveExcludedItem ident nowIso (localStorage s) of
        Inl e \<Rightarrow> Inl e
      | Inr ls \<Rightarrow>
          Inr \<lparr>items = map (\<lambda>item. if item_id item = ident then item\<lparr>isExcluded := True\<rparr>
                                    else item) (items s),
               localStorage = ls\<rparr>)"

definition handleRestore :: "string \<Rightarrow> AppState \<Rightarrow> error + AppState" where
  "handleRestore ident s =
     (case removeExcludedItem ident (localStorage s) of
        Inl e \<Rightarrow> Inl e
      | Inr ls \<Rightarrow>
          Inr \<lparr>items = map (\<lambda>item. if item_id item = ident then item\<lparr>isExcluded := False\<rparr>
                                    else item) (items s),
               localStorage = ls\<rparr>)"

text \<open>
  The state the application is in after a handler call: the returned one, or the state as
  it was when the handler threw.
\<close>

definition stateAfter :: "AppState \<Rightarrow> error + AppState \<Rightarrow> AppState" where
  "stateAfter s r = (case r of Inl e \<Rightarrow> s | Inr s' \<Rightarrow> s')"

section \<open>Aggregator (stats)\<close>

record DashboardStats =
  totalImported :: nat
  totalNational :: nat
  atrasado :: nat
  critico :: nat
  alerta :: nat
  producao :: nat
  embarcado :: nat
  followUpNeeded :: nat

definition activeItems :: "ImportItem list \<Rightarrow> ImportItem list" where
  "activeItems its = filter (\<lambda>i. \<not> isExcluded i) its"

definition excludedItems :: "ImportItem list \<Rightarrow> ImportItem list" where
  "excludedItems its = filter (\<lambda>i. isExcluded i) its"

definition initial :: DashboardStats where
  "initial = \<lparr>totalImported = 0, totalNational = 0, atrasado = 0, critico = 0, alerta = 0,
              producao = 0, embarcado = 0, followUpNeeded = 0\<rparr>"

text \<open>The reducer of \<open>activeItems.reduce\<close>.\<close>

definition tally :: "DashboardStats \<Rightarrow> ImportItem \<Rightarrow> DashboardStats" where
  "tally acc item =
     (if status item = NACIONAL then acc\<lparr>totalNational := totalNational acc + 1\<rparr>
      else
        let a0 = acc\<lparr>totalImported := totalImported acc + 1\<rparr>;
            a1 = (if status item = ATRASADO then a0\<lparr>atrasado := atrasado a0 + 1\<rparr> else a0);
            a2 = (if status item = CRITICO then a1\<lparr>critico := critico a1 + 1\<rparr> else a1);
            a3 = (if status item = ALERTA then a2\<lparr>alerta := alerta a2 + 1\<rparr> else a2);
            a4 = (if status item = PRODUCAO then a3\<lparr>producao := producao a3 + 1\<rparr> else a3);
            a5 = (if status item = EMBARCADO then a4\<lparr>embarcado := embarcado a4 + 1\<rparr> else a4)
        in if status item = CRITICO \<or> status item = ALERTA
           then a5\<lparr>followUpNeeded := followUpNeeded a5 + 1\<rparr> else a5)"

definition stats :: "ImportItem list \<Rightarrow> DashboardStats" where
  "stats its = foldl tally initial (activeItems its)"

section \<open>Query engine: the sort of processedItems (DataTable)\<close>

text \<open>The string value of each enum member, which keys the priority table.\<close>

fun statusName :: "ImportStatus \<Rightarrow> string" where
  "statusName ATRASADO = ''ATRASADO''"
| "statusName CRITICO = ''CRITICO''"
| "statusName ALERTA = ''ALERTA''"
| "statusName PRODUCAO = ''PRODUCAO''"
| "statusName EMBARCADO = ''EMBARCADO''"
| "statusName NACIONAL = ''NACIONAL''"

definition STATUS_PRIORITY :: "string \<rightharpoonup> int" where
  "STATUS_PRIORITY =
     map_of [(''ATRASADO'', 1), (''CRITICO'', 2), (''ALERTA'', 3), (''PRODUCAO'', 4),
             (''EMBARCADO'', 5), (''NACIONAL'', 6)]"

text \<open>\<open>STATUS_PRIORITY[k] || 99\<close>: a missing key and a zero both give 99.\<close>

definition priorityOf :: "string \<Rightarrow> int" where
  "priorityOf k = (case STATUS_PRIORITY k of None \<Rightarrow> 99 | Some p \<Rightarrow> if p = 0 then 99 else p)"

text \<open>The comparator passed to \<open>sort\<close>.\<close>

definition compareItems :: "ImportItem \<Rightarrow> ImportItem \<Rightarrow> int" where
  "compareItems a b =
     (let prioA = priorityOf (statusName (status a));
          prioB = priorityOf (statusName (status b))
      in if prioA \<noteq> prioB then prioA - prioB
         else DIAS_PARA_NECESS a - DIAS_PARA_NECESS b)"

text \<open>
  \<open>Array.prototype.sort\<close> with a comparator: ECMAScript (2019 on) requires a stable
  sort, so with a consistent comparator the result is the one a stable insertion sort
  gives: an element goes before the first later element it does not compare greater than.
\<close>

fun insertBy :: "('a \<Rightarrow> 'a \<Rightarrow> int) \<Rightarrow> 'a \<Rightarrow> 'a list \<Rightarrow> 'a list" where
  "insertBy cmp x [] = [x]"
| "insertBy cmp x (y # ys) = (if cmp x y \<le> 0 then x # y # ys else y # insertBy cmp x ys)"

definition sortBy :: "('a \<Rightarrow> 'a \<Rightarrow> int) \<Rightarrow> 'a list \<Rightarrow> 'a list" where
  "sortBy cmp xs = foldr (insertBy cmp) xs []"

definition sortItems :: "ImportItem list \<Rightarrow> ImportItem list" where
  "sortItems filtered = sortBy compareItems filtered"

section \<open>Reachable states and the record invariant\<close>

text \<open>
  The states the application can be in: it starts with an empty collection over any
  content of localStorage, and every handler call that returns leads from a reachable
  state to a reachable state.
\<close>

inductive reachable :: "AppState \<Rightarrow> bool" where
  start: "reachable \<lparr>items = [], localStorage = ls\<rparr>"
| upload: "reachable s \<Longrightarrow> reachable (handleFileUpload h t0 clock upl s)"
| markShipped:
    "reachable s \<Longrightarrow> handleMarkShipped ident storeIso stamp s = Inr s' \<Longrightarrow> reachable s'"
| unmarkShipped: "reachable s \<Longrightarrow> handleUnmarkShipped ident s = Inr s' \<Longrightarrow> reachable s'"
| exclude: "reachable s \<Longrightarrow> handleExclude ident nowIso s = Inr s' \<Longrightarrow> reachable s'"
| restore: "reachable s \<Longrightarrow> handleRestore ident s = Inr s' \<Longrightarrow> reachable s'"

text \<open>
  What the builder establishes and the handlers keep for every record: a status other
  than NACIONAL and EMBARCADO is the classification of the stored day-delta, and only
  an EMBARCADO record carries a shipped timestamp.
\<close>

definition coherent :: "ImportItem \<Rightarrow> bool" where
  "coherent item =
     ((status item = NACIONAL \<or> status item = EMBARCADO
        \<or> status item = calculateStatus (DIAS_PARA_NECESS item))
      \<and> (status item = EMBARCADO \<or> DATA_CHECK_EMBARQUE item = None))"

section \<open>Example inputs\<close>

text \<open>
  A host in which no string parses as a date, at UTC-3; a clock that reads
  1699000000000 ms when the import starts and one millisecond more in each row; an empty
  localStorage and one whose excluded entry is the JSON text \<open>null\<close>; rows of an
  imported item, of a national item, of an item with nothing but a purchase order, of an
  item with unparseable dates, and of an imported item whose purchase order is the text
  NAT; the states after importing the first two.
\<close>

definition host0 :: host where
  "host0 = \<lparr>parseDate = (\<lambda>_. InvalidDate), dateToString = (\<lambda>_. ''date''), tzOffset = - 10800000\<rparr>"

definition clock0 :: "nat \<Rightarrow> int" where
  "clock0 idx = 1699000000001 + int idx"

definition storage0 :: LocalStorage where
  "storage0 = \<lparr>importflow_shipped_items = Missing, importflow_excluded_items = Missing\<rparr>"

definition state0 :: AppState where
  "state0 = \<lparr>items = [], localStorage = storage0\<rparr>"

definition nullExcludedState :: AppState where
  "nullExcludedState =
     \<lparr>items = [],
      localStorage = \<lparr>importflow_shipped_items = Missing, importflow_excluded_items = ParsedNull\<rparr>\<rparr>"

definition importedRow :: row where
  "importedRow = (\<lambda>_. Undefined)(''NUMERO_PO'' := Str ''PO1'', ''NUMERO_PC'' := Str ''PC1'',
     ''NECESS_PC'' := DateCell (DateMs 1700000000000))"

definition nationalRow :: row where
  "nationalRow = (\<lambda>_. Undefined)(''NUMERO_PC'' := Str ''PC9'')"


definition poOnlyRow :: row where
  "poOnlyRow = (\<lambda>_. Undefined)(''NUMERO_PO'' := Str ''PO7'')"


definition nationalState :: AppState where
  "nationalState = handleFileUpload host0 1699000000000 clock0 (Some [nationalRow]) state0"

definition importedState :: AppState where
  "importedState = handleFileUpload host0 1699000000000 clock0 (Some [importedRow]) state0"


definition sampleItem :: "ImportStatus \<Rightarrow> int \<Rightarrow> ImportItem" where
  "sampleItem st d =
     \<lparr>item_id = ''PO1-PC1-0'', NUMERO_SC = Undefined, NUMERO_PO = Str ''PO1'',
      NUMERO_PC = Str ''PC1'', NECESS_SC = None, NECESS_PC = DateMs 1700000000000,
      RAZAO_FORNEC = Str ''-'', DESCR_PROD = Str ''-'', VOLUME_PC = Str ''-'',
      DIAS_PARA_NECESS = d, status = st, DATA_CHECK_EMBARQUE = None, isExcluded = False\<rparr>"

section \<open>Verified properties\<close>

subsection \<open>Evaluating the import\<close>

lemma show_nat_0: "show_nat 0 = ''0''"
  by (simp add: show_nat.simps [of 0] digit_def)

lemmas eval_import = processExcelData_def processRow_def buildItem_def itemId_def
  isNational_def isGhostRow_def enumerate_eq_zip Let_def loadShippedMap_def loadExcludedMap_def
  getProp_def readProp_def objectPrototypeKeys_def trim_def isSpace_def orElse_def show_nat_0
  startOfDay_def differenceInCalendarDays_def msPerDay_def calculateStatus_def clock0_def

lemma import_nationalRow:
  "processExcelData host0 storage0 1699000000000 clock0 [nationalRow] =
   Inr [\<lparr>item_id = ''NAT-PC9-0'', NUMERO_SC = Undefined, NUMERO_PO = Str [],
     NUMERO_PC = Str ''PC9'', NECESS_SC = None,
     NECESS_PC = DateMs 1699000000001, RAZAO_FORNEC = Str ''-'',
     DESCR_PROD = Str ''-'', VOLUME_PC = Str ''-'', DIAS_PARA_NECESS = 0,
     status = NACIONAL, DATA_CHECK_EMBARQUE = None, isExcluded = False\<rparr>]"
  by (simp add: eval_import host0_def storage0_def nationalRow_def)

lemma import_importedRow:
  "processExcelData host0 storage0 1699000000000 clock0 [importedRow] =
   Inr [\<lparr>item_id = ''PO1-PC1-0'', NUMERO_SC = Undefined, NUMERO_PO = Str ''PO1'',
     NUMERO_PC = Str ''PC1'', NECESS_SC = None,
     NECESS_PC = DateMs 1700000000000, RAZAO_FORNEC = Str ''-'',
     DESCR_PROD = Str ''-'', VOLUME_PC = Str ''-'', DIAS_PARA_NECESS = 11,
     status = CRITICO, DATA_CHECK_EMBARQUE = None, isExcluded = False\<rparr>]"
  by (simp add: eval_import host0_def storage0_def importedRow_def)

subsection \<open>The store operations\<close>

lemma loadShippedMap_cases:
  "loadShippedMap ls = JNull \<longleftrightarrow> importflow_shipped_items ls = ParsedNull"
  by (simp add: loadShippedMap_def split: entry.splits)

lemma loadExcludedMap_cases:
  "loadExcludedMap ls = JNull \<longleftrightarrow> importflow_excluded_items ls = ParsedNull"
  by (simp add: loadExcludedMap_def split: entry.splits)

lemma saveShippedItem_Inr:
  "saveShippedItem ident t ls = Inr ls' \<longleftrightarrow>
   (\<exists>m. loadShippedMap ls = JObject m
      \<and> ls' = ls\<lparr>importflow_shipped_items := Parsed (setProp m ident \<lparr>date = t\<rparr>)\<rparr>)"
  by (auto simp: saveShippedItem_def split: jsvalue.splits)

lemma saveExcludedItem_Inr:
  "saveExcludedItem ident t ls = Inr ls' \<longleftrightarrow>
   (\<exists>m. loadExcludedMap ls = JObject m
      \<and> ls' = ls\<lparr>importflow_excluded_items := Parsed (setProp m ident \<lparr>date = t\<rparr>)\<rparr>)"
  by (auto simp: saveExcludedItem_def split: jsvalue.splits)

lemma removeShippedItem_Inr:
  "removeShippedItem ident ls = Inr ls' \<longleftrightarrow>
   (\<exists>m. loadShippedMap ls = JObject m
      \<and> ls' = (if truthyProp (readProp m ident)
                then ls\<lparr>importflow_shipped_items := Parsed (m(ident := None))\<rparr> else ls))"
  by (auto simp: removeShippedItem_def split: jsvalue.splits)

lemma removeExcludedItem_Inr:
  "removeExcludedItem ident ls = Inr ls' \<longleftrightarrow>
   (\<exists>m. loadExcludedMap ls = JObject m
      \<and> ls' = (if truthyProp (readProp m ident)
                then ls\<lparr>importflow_excluded_items := Parsed (m(ident := None))\<rparr> else ls))"
  by (auto simp: removeExcludedItem_def split: jsvalue.splits)

lemma load_not_null:
  "importflow_shipped_items ls \<noteq> ParsedNull \<Longrightarrow> \<exists>m. loadShippedMap ls = JObject m"
  "importflow_excluded_items ls \<noteq> ParsedNull \<Longrightarrow> \<exists>m. loadExcludedMap ls = JObject m"
  by (simp_all add: loadShippedMap_def loadExcludedMap_def split: entry.splits)

lemma readProp_absent: "m k = None \<Longrightarrow> truthyProp (readProp m k) \<Longrightarrow> k \<in> set objectPrototypeKeys"
  by (simp add: readProp_def split: if_splits)

lemma storedEntry_after_remove:
  "removeShippedItem ident ls = Inr ls' \<Longrightarrow> storedEntry (loadShippedMap ls') ident = None"
  "removeExcludedItem ident ls = Inr ls' \<Longrightarrow> storedEntry (loadExcludedMap ls') ident = None"
  by (auto simp: removeShippedItem_Inr removeExcludedItem_Inr storedEntry_def loadShippedMap_def
      loadExcludedMap_def readProp_def split: entry.splits option.splits if_splits)

subsection \<open>Handlers, field by field\<close>

lemma handleMarkShipped_Inr:
  "handleMarkShipped ident storeIso stamp s = Inr s' \<longleftrightarrow>
   (\<exists>ls. saveShippedItem ident storeIso (localStorage s) = Inr ls
      \<and> s' = \<lparr>items = map (\<lambda>(k, item).
                               if item_id item = ident \<and> status item \<noteq> NACIONAL
                               then item\<lparr>status := EMBARCADO,
                                         DATA_CHECK_EMBARQUE := Some (stamp k)\<rparr>
                               else item) (List.enumerate 0 (items s)),
               localStorage = ls\<rparr>)"
  by (auto simp: handleMarkShipped_def split: sum.splits)

lemma handleUnmarkShipped_Inr:
  "handleUnmarkShipped ident s = Inr s' \<longleftrightarrow>
   (\<exists>ls. removeShippedItem ident (localStorage s) = Inr ls
      \<and> s' = \<lparr>items = map (\<lambda>item.
                               if item_id item = ident \<and> status item = EMBARCADO
                               then item\<lparr>status := calculateStatus (DIAS_PARA_NECESS item),
                                         DATA_CHECK_EMBARQUE := None\<rparr>
                               else item) (items s),
               localStorage = ls\<rparr>)"
  by (auto simp: handleUnmarkShipped_def split: sum.splits)

lemma handleExclude_Inr:
  "handleExclude ident nowIso s = Inr s' \<longleftrightarrow>
   (\<exists>ls. saveExcludedItem ident nowIso (localStorage s) = Inr ls
      \<and> s' = \<lparr>items = map (\<lambda>item. if item_id item = ident then item\<lparr>isExcluded := True\<rparr>
                                    else item) (items s),
               localStorage = ls\<rparr>)"
  by (auto simp: handleExclude_def split: sum.splits)

lemma handleRestore_Inr:
  "handleRestore ident s = Inr s' \<longleftrightarrow>
   (\<exists>ls. removeExcludedItem ident (localStorage s) = Inr ls
      \<and> s' = \<lparr>items = map (\<lambda>item. if item_id item = ident then item\<lparr>isExcluded := False\<rparr>
                                    else item) (items s),
               localStorage = ls\<rparr>)"
  by (auto simp: handleRestore_def split: sum.splits)

lemma nth_handleMarkShipped:
  assumes "handleMarkShipped ident storeIso stamp s = Inr s'"
  shows "length (items s') = length (items s)"
    and "k < length (items s) \<Longrightarrow>
      items s' ! k =
        (if item_id (items s ! k) = ident \<and> status (items s ! k) \<noteq> NACIONAL
         then (items s ! k)\<lparr>status := EMBARCADO, DATA_CHECK_EMBARQUE := Some (stamp k)\<rparr>
         else items s ! k)"
    and "saveShippedItem ident storeIso (localStorage s) = Inr (localStorage s')"
  using assms by (auto simp: handleMarkShipped_Inr nth_enumerate_eq)

lemma nth_handleUnmarkShipped:
  assumes "handleUnmarkShipped ident s = Inr s'"
  shows "length (items s') = length (items s)"
    and "k < length (items s) \<Longrightarrow>
      items s' ! k =
        (if item_id (items s ! k) = ident \<and> status (items s ! k) = EMBARCADO
         then (items s ! k)\<lparr>status := calculateStatus (DIAS_PARA_NECESS (items s ! k)),
                             DATA_CHECK_EMBARQUE := None\<rparr>
         else items s ! k)"
    and "removeShippedItem ident (localStorage s) = Inr (localStorage s')"
  using assms by (auto simp: handleUnmarkShipped_Inr)

lemma nth_handleExclude:
  assumes "handleExclude ident nowIso s = Inr s'"
  shows "length (items s') = length (items s)"
    and "k < length (items s) \<Longrightarrow>
      items s' ! k =
        (if item_id (items s ! k) = ident then (items s ! k)\<lparr>isExcluded := True\<rparr>
         else items s ! k)"
    and "saveExcludedItem ident nowIso (localStorage s) = Inr (localStorage s')"
  using assms by (auto simp: handleExclude_Inr)

lemma nth_handleRestore:
  assumes "handleRestore ident s = Inr s'"
  shows "length (items s') = length (items s)"
    and "k < length (items s) \<Longrightarrow>
      items s' ! k =
        (if item_id (items s ! k) = ident then (items s ! k)\<lparr>isExcluded := False\<rparr>
         else items s ! k)"
    and "removeExcludedItem ident (localStorage s) = Inr (localStorage s')"
  using assms by (auto simp: handleRestore_Inr)

lemma handler_succeeds:
  "importflow_shipped_items (localStorage s) \<noteq> ParsedNull
     \<Longrightarrow> \<exists>s'. handleMarkShipped ident storeIso stamp s = Inr s'"
  "importflow_shipped_items (localStorage s) \<noteq> ParsedNull
     \<Longrightarrow> \<exists>s'. handleUnmarkShipped ident s = Inr s'"
  "importflow_excluded_items (localStorage s) \<noteq> ParsedNull
     \<Longrightarrow> \<exists>s'. handleExclude ident nowIso s = Inr s'"
  "importflow_excluded_items (localStorage s) \<noteq> ParsedNull
     \<Longrightarrow> \<exists>s'. handleRestore ident s = Inr s'"
  using load_not_null [of "localStorage s"]
  by (auto simp: handleMarkShipped_Inr handleUnmarkShipped_Inr handleExclude_Inr
      handleRestore_Inr saveShippedItem_Inr removeShippedItem_Inr saveExcludedItem_Inr
      removeExcludedItem_Inr)

lemma handler_throws:
  "importflow_shipped_items (localStorage s) = ParsedNull
     \<Longrightarrow> handleMarkShipped ident storeIso stamp s = Inl TypeError"
  "importflow_shipped_items (localStorage s) = ParsedNull
     \<Longrightarrow> handleUnmarkShipped ident s = Inl TypeError"
  "importflow_excluded_items (localStorage s) = ParsedNull
     \<Longrightarrow> handleExclude ident nowIso s = Inl TypeError"
  "importflow_excluded_items (localStorage s) = ParsedNull
     \<Longrightarrow> handleRestore ident s = Inl TypeError"
  by (simp_all add: handleMarkShipped_def handleUnmarkShipped_def handleExclude_def
      handleRestore_def saveShippedItem_def removeShippedItem_def saveExcludedItem_def
      removeExcludedItem_def loadShippedMap_def loadExcludedMap_def)

lemma entries_after_save:
  "saveShippedItem ident t ls = Inr ls' \<Longrightarrow> importflow_shipped_items ls' \<noteq> ParsedNull"
  "saveShippedItem ident t ls = Inr ls' \<Longrightarrow>
     importflow_excluded_items ls' = importflow_excluded_items ls"
  "saveExcludedItem ident t ls = Inr ls' \<Longrightarrow> importflow_excluded_items ls' \<noteq> ParsedNull"
  "saveExcludedItem ident t ls = Inr ls' \<Longrightarrow>
     importflow_shipped_items ls' = importflow_shipped_items ls"
  by (auto simp: saveShippedItem_Inr saveExcludedItem_Inr)

subsection \<open>The builder, field by field\<close>

lemma calculateStatus_range:
  "calculateStatus d \<noteq> EMBARCADO" "calculateStatus d \<noteq> NACIONAL"
  by (simp_all add: calculateStatus_def)


lemma processRow_Some_iff:
  "processRow h sm em today now row idx = Inr (Some item) \<longleftrightarrow>
   \<not> isGhostRow row
   \<and> (\<exists>shipped excluded.
        (if isNational h row then Inr PUndefined else getProp sm (itemId h row idx)) = Inr shipped
        \<and> getProp em (itemId h row idx) = Inr excluded
        \<and> item = buildItem h today now row idx shipped excluded)"
  by (auto simp: processRow_def split: sum.splits)

lemma processRow_throws_iff:
  "processRow h sm em today now row idx = Inl e \<longleftrightarrow>
   \<not> isGhostRow row \<and> ((\<not> isNational h row \<and> sm = JNull) \<or> em = JNull)"
  by (cases e) (auto simp: processRow_def getProp_def split: sum.splits jsvalue.splits)

lemma buildItem_fields:
  "item_id (buildItem h today now row idx shipped excluded) = itemId h row idx"
  "status (buildItem h today now row idx shipped excluded) =
     (if isNational h row then NACIONAL
      else if truthyProp shipped then EMBARCADO
      else calculateStatus (DIAS_PARA_NECESS (buildItem h today now row idx shipped excluded)))"
  "DATA_CHECK_EMBARQUE (buildItem h today now row idx shipped excluded) =
     (if \<not> isNational h row \<and> truthyProp shipped then propDate shipped else None)"
  "isExcluded (buildItem h today now row idx shipped excluded) = truthyProp excluded"
  by (simp_all add: buildItem_def Let_def)

lemma buildItem_descriptive:
  "RAZAO_FORNEC (buildItem h today now row idx shipped excluded)
     = orElse (row ''RAZAO_FORNEC'') (Str ''-'')"
  "DESCR_PROD (buildItem h today now row idx shipped excluded)
     = orElse (row ''DESCR_PROD'') (Str ''-'')"
  "VOLUME_PC (buildItem h today now row idx shipped excluded)
     = orElse (row ''VOLUME_PC'') (Str ''-'')"
  "NUMERO_PC (buildItem h today now row idx shipped excluded)
     = orElse (row ''NUMERO_PC'') (Str ''N/A'')"
  "NUMERO_SC (buildItem h today now row idx shipped excluded) = row ''NUMERO_SC''"
  by (simp_all add: buildItem_def Let_def orElse_def)


lemma buildItem_coherent: "coherent (buildItem h today now row idx shipped excluded)"
  by (simp add: coherent_def buildItem_fields calculateStatus_range)

subsection \<open>The import as a whole\<close>

lemma collect_Inr:
  "collect (map F ps) = Inr xs \<Longrightarrow>
   xs = List.map_filter (\<lambda>p. case F p of Inl e \<Rightarrow> None | Inr r \<Rightarrow> r) ps"
proof (induction ps arbitrary: xs)
  case Nil
  then show ?case by simp
next
  case (Cons p ps)
  show ?case
  proof (cases "F p")
    case (Inl e)
    with Cons.prems show ?thesis by simp
  next
    case (Inr r)
    show ?thesis
    proof (cases r)
      case None
      with Inr Cons show ?thesis by simp
    next
      case (Some x)
      with Inr Cons.prems obtain ys where "collect (map F ps) = Inr ys" and "xs = x # ys"
        by (auto split: sum.splits)
      with Inr Some Cons.IH show ?thesis by simp
    qed
  qed
qed

lemma collect_no_throw:
  "collect (map F ps) = Inr xs \<Longrightarrow> p \<in> set ps \<Longrightarrow> \<exists>r. F p = Inr r"
proof (induction ps arbitrary: xs)
  case Nil
  then show ?case by simp
next
  case (Cons q ps)
  show ?case
  proof (cases "F q")
    case (Inl e)
    with Cons.prems show ?thesis by simp
  next
    case (Inr r)
    show ?thesis
    proof (cases r)
      case None
      with Inr Cons show ?thesis by auto
    next
      case (Some x)
      with Inr Cons.prems obtain ys where "collect (map F ps) = Inr ys"
        by (auto split: sum.splits)
      with Inr Cons show ?thesis by auto
    qed
  qed
qed

lemma collect_succeeds:
  "(\<And>p. p \<in> set ps \<Longrightarrow> \<exists>r. F p = Inr r) \<Longrightarrow> \<exists>xs. collect (map F ps) = Inr xs"
proof (induction ps)
  case Nil
  show ?case by simp
next
  case (Cons q ps)
  then obtain r xs where "F q = Inr r" and "collect (map F ps) = Inr xs"
    by (metis list.set_intros)
  then show ?case
    by (cases r) simp_all
qed

lemma in_processExcelData:
  assumes "processExcelData h ls t0 clock rows = Inr its"
  shows "item \<in> set its \<longleftrightarrow>
   (\<exists>idx < length rows.
      processRow h (loadShippedMap ls) (loadExcludedMap ls) (startOfDay (tzOffset h) t0)
        (clock idx) (rows ! idx) idx = Inr (Some item))"
proof -
  let ?F = "\<lambda>(idx, row). processRow h (loadShippedMap ls) (loadExcludedMap ls)
      (startOfDay (tzOffset h) t0) (clock idx) row idx"
  have its: "its = List.map_filter (\<lambda>p. case ?F p of Inl e \<Rightarrow> None | Inr r \<Rightarrow> r)
      (List.enumerate 0 rows)"
    using assms by (intro collect_Inr) (simp add: processExcelData_def Let_def)
  have no_throw: "\<exists>r. ?F p = Inr r" if "p \<in> set (List.enumerate 0 rows)" for p
    using assms that by (intro collect_no_throw [where F = ?F])
      (simp_all add: processExcelData_def Let_def)
  show ?thesis
  proof
    assume "item \<in> set its"
    then obtain p where p: "p \<in> set (List.enumerate 0 rows)"
      and "(case ?F p of Inl e \<Rightarrow> None | Inr r \<Rightarrow> r) = Some item"
      unfolding its by (auto simp: List.map_filter_def)
    then have "?F p = Inr (Some item)"
      by (auto split: sum.splits)
    moreover obtain idx row where pair: "p = (idx, row)"
      by (cases p)
    moreover from p pair have "idx < length rows" and "row = rows ! idx"
      by (simp_all add: in_set_enumerate_eq)
    ultimately show "\<exists>idx < length rows.
      processRow h (loadShippedMap ls) (loadExcludedMap ls) (startOfDay (tzOffset h) t0)
        (clock idx) (rows ! idx) idx = Inr (Some item)"
      by auto
  next
    assume "\<exists>idx < length rows.
      processRow h (loadShippedMap ls) (loadExcludedMap ls) (startOfDay (tzOffset h) t0)
        (clock idx) (rows ! idx) idx = Inr (Some item)"
    then obtain idx where "idx < length rows" and "?F (idx, rows ! idx) = Inr (Some item)"
      by auto
    moreover from this have "(idx, rows ! idx) \<in> set (List.enumerate 0 rows)"
      by (simp add: in_set_enumerate_eq)
    ultimately show "item \<in> set its"
      unfolding its by (force simp: List.map_filter_def image_iff)
  qed
qed

lemma processExcelData_succeeds:
  assumes "importflow_shipped_items ls \<noteq> ParsedNull"
    and "importflow_excluded_items ls \<noteq> ParsedNull"
  shows "\<exists>its. processExcelData h ls t0 clock rows = Inr its"
proof -
  from assms have "loadShippedMap ls \<noteq> JNull" and "loadExcludedMap ls \<noteq> JNull"
    by (simp_all add: loadShippedMap_cases loadExcludedMap_cases)
  then have "\<exists>r. processRow h (loadShippedMap ls) (loadExcludedMap ls)
      (startOfDay (tzOffset h) t0) (clock idx) row idx = Inr r" for idx row
    using processRow_throws_iff [of h "loadShippedMap ls" "loadExcludedMap ls"
        "startOfDay (tzOffset h) t0" "clock idx" row idx]
    by (cases "processRow h (loadShippedMap ls) (loadExcludedMap ls)
      (startOfDay (tzOffset h) t0) (clock idx) row idx") auto
  then show ?thesis
    unfolding processExcelData_def Let_def
    by (intro collect_succeeds) auto
qed

subsection \<open>The record invariant\<close>

lemma coherent_mark:
  "coherent item \<Longrightarrow> coherent (item\<lparr>status := EMBARCADO, DATA_CHECK_EMBARQUE := Some t\<rparr>)"
  by (simp add: coherent_def)

lemma coherent_unmark:
  "coherent item \<Longrightarrow>
   coherent (item\<lparr>status := calculateStatus (DIAS_PARA_NECESS item), DATA_CHECK_EMBARQUE := None\<rparr>)"
  by (simp add: coherent_def calculateStatus_range)

lemma coherent_excluded:
  "coherent item \<Longrightarrow> coherent (item\<lparr>isExcluded := b\<rparr>)"
  by (simp add: coherent_def)

lemma reachable_coherent:
  "reachable s \<Longrightarrow> item \<in> set (items s) \<Longrightarrow> coherent item"
proof (induction arbitrary: item rule: reachable.induct)
  case (start ls)
  then show ?case by simp
next
  case (upload s h t0 clock upl)
  show ?case
  proof (cases upl)
    case None
    with upload show ?thesis by (simp add: handleFileUpload_def)
  next
    case (Some rows)
    show ?thesis
    proof (cases "processExcelData h (localStorage s) t0 clock rows")
      case (Inl e)
      with Some upload show ?thesis by (simp add: handleFileUpload_def)
    next
      case (Inr its)
      with Some upload.prems have "item \<in> set its"
        by (simp add: handleFileUpload_def)
      then show ?thesis
        by (auto simp: in_processExcelData [OF Inr] processRow_Some_iff buildItem_coherent)
    qed
  qed
next
  case (markShipped s ident storeIso stamp s')
  then show ?case
    by (auto simp: handleMarkShipped_Inr in_set_enumerate_eq coherent_mark)
next
  case (unmarkShipped s ident s')
  then show ?case
    by (auto simp: handleUnmarkShipped_Inr coherent_unmark)
next
  case (exclude s ident nowIso s')
  then show ?case
    by (auto simp: handleExclude_Inr coherent_excluded)
next
  case (restore s ident s')
  then show ?case
    by (auto simp: handleRestore_Inr coherent_excluded)
qed

subsection \<open>The example states\<close>

lemma items_nationalState:
  "items nationalState = [\<lparr>item_id = ''NAT-PC9-0'', NUMERO_SC = Undefined, NUMERO_PO = Str [],
     NUMERO_PC = Str ''PC9'', NECESS_SC = None,
     NECESS_PC = DateMs 1699000000001, RAZAO_FORNEC = Str ''-'',
     DESCR_PROD = Str ''-'', VOLUME_PC = Str ''-'', DIAS_PARA_NECESS = 0,
     status = NACIONAL, DATA_CHECK_EMBARQUE = None, isExcluded = False\<rparr>]"
  by (simp add: nationalState_def handleFileUpload_def state0_def import_nationalRow)

lemma localStorage_nationalState: "localStorage nationalState = storage0"
  by (simp add: nationalState_def handleFileUpload_def state0_def import_nationalRow)

lemma items_importedState:
  "items importedState =
   [\<lparr>item_id = ''PO1-PC1-0'', NUMERO_SC = Undefined, NUMERO_PO = Str ''PO1'',
     NUMERO_PC = Str ''PC1'', NECESS_SC = None,
     NECESS_PC = DateMs 1700000000000, RAZAO_FORNEC = Str ''-'',
     DESCR_PROD = Str ''-'', VOLUME_PC = Str ''-'', DIAS_PARA_NECESS = 11,
     status = CRITICO, DATA_CHECK_EMBARQUE = None, isExcluded = False\<rparr>]"
  by (simp add: importedState_def handleFileUpload_def state0_def import_importedRow)

lemma localStorage_importedState: "localStorage importedState = storage0"
  by (simp add: importedState_def handleFileUpload_def state0_def import_importedRow)

lemma reachable_importedState: "reachable importedState"
  unfolding importedState_def state0_def by (intro reachable.upload reachable.start)

subsection \<open>The aggregator's fold\<close>

lemma foldl_tally:
  "foldl tally acc xs =
     \<lparr>totalImported = totalImported acc + length (filter (\<lambda>i. status i \<noteq> NACIONAL) xs),
      totalNational = totalNational acc + length (filter (\<lambda>i. status i = NACIONAL) xs),
      atrasado = atrasado acc + length (filter (\<lambda>i. status i = ATRASADO) xs),
      critico = critico acc + length (filter (\<lambda>i. status i = CRITICO) xs),
      alerta = alerta acc + length (filter (\<lambda>i. status i = ALERTA) xs),
      producao = producao acc + length (filter (\<lambda>i. status i = PRODUCAO) xs),
      embarcado = embarcado acc + length (filter (\<lambda>i. status i = EMBARCADO) xs),
      followUpNeeded = followUpNeeded acc
         + length (filter (\<lambda>i. status i = CRITICO \<or> status i = ALERTA) xs)\<rparr>"
proof (induction xs arbitrary: acc)
  case Nil
  show ?case by simp
next
  case (Cons x xs)
  show ?case
    unfolding foldl.simps Cons.IH
    by (cases "status x") (simp_all add: tally_def Let_def)
qed

lemma length_filter_disj:
  "length (filter (\<lambda>i. Q i \<and> (status i = CRITICO \<or> status i = ALERTA)) xs)
   = length (filter (\<lambda>i. Q i \<and> status i = CRITICO) xs)
     + length (filter (\<lambda>i. Q i \<and> status i = ALERTA) xs)"
  by (induction xs) auto

subsection \<open>Calendar days\<close>



subsection \<open>The priority table and the stable sort\<close>

lemma priorityOf_table:
  "priorityOf ''ATRASADO'' = 1" "priorityOf ''CRITICO'' = 2"
  "priorityOf ''ALERTA'' = 3" "priorityOf ''PRODUCAO'' = 4"
  "priorityOf ''EMBARCADO'' = 5" "priorityOf ''NACIONAL'' = 6"
  by (simp_all add: priorityOf_def STATUS_PRIORITY_def)

lemma priorityOf_unmapped:
  "k \<notin> {''ATRASADO'', ''CRITICO'', ''ALERTA'', ''PRODUCAO'', ''EMBARCADO'', ''NACIONAL''}
   \<Longrightarrow> priorityOf k = 99"
  by (simp add: priorityOf_def STATUS_PRIORITY_def)

lemma compareItems_le_iff:
  "compareItems a b \<le> 0 \<longleftrightarrow>
     priorityOf (statusName (status a)) < priorityOf (statusName (status b))
     \<or> (priorityOf (statusName (status a)) = priorityOf (statusName (status b))
         \<and> DIAS_PARA_NECESS a \<le> DIAS_PARA_NECESS b)"
  by (auto simp: compareItems_def Let_def)

lemma set_insertBy: "set (insertBy cmp x ys) = insert x (set ys)"
  by (induction ys) auto

lemma mset_insertBy: "mset (insertBy cmp x ys) = add_mset x (mset ys)"
  by (induction ys) auto

lemma mset_sortBy: "mset (sortBy cmp xs) = mset xs"
  by (induction xs) (simp_all add: sortBy_def mset_insertBy)

lemma sorted_insertBy:
  assumes total: "\<And>a b. \<not> cmp a b \<le> 0 \<Longrightarrow> cmp b a \<le> 0"
    and trans: "\<And>a b c. cmp a b \<le> 0 \<Longrightarrow> cmp b c \<le> 0 \<Longrightarrow> cmp a c \<le> 0"
    and sorted: "sorted_wrt (\<lambda>a b. cmp a b \<le> 0) ys"
  shows "sorted_wrt (\<lambda>a b. cmp a b \<le> 0) (insertBy cmp x ys)"
  using sorted
proof (induction ys)
  case Nil
  show ?case by simp
next
  case (Cons y ys)
  show ?case
  proof (cases "cmp x y \<le> 0")
    case True
    have "cmp x z \<le> 0" if "z \<in> set ys" for z
      using trans [OF True, of z] Cons.prems that by simp
    with True Cons.prems show ?thesis
      by simp
  next
    case False
    then have "cmp y x \<le> 0" by (rule total)
    with False Cons show ?thesis
      by (auto simp: set_insertBy)
  qed
qed

lemma sorted_sortBy:
  assumes "\<And>a b. \<not> cmp a b \<le> 0 \<Longrightarrow> cmp b a \<le> 0"
    and "\<And>a b c. cmp a b \<le> 0 \<Longrightarrow> cmp b c \<le> 0 \<Longrightarrow> cmp a c \<le> 0"
  shows "sorted_wrt (\<lambda>a b. cmp a b \<le> 0) (sortBy cmp xs)"
proof (induction xs)
  case Nil
  show ?case by (simp add: sortBy_def)
next
  case (Cons x xs)
  have "sortBy cmp (x # xs) = insertBy cmp x (sortBy cmp xs)"
    by (simp add: sortBy_def)
  moreover have "sorted_wrt (\<lambda>a b. cmp a b \<le> 0) (insertBy cmp x (sortBy cmp xs))"
    using assms Cons.IH by (rule sorted_insertBy)
  ultimately show ?case
    by simp
qed

lemma filter_insertBy_other:
  "\<not> P x \<Longrightarrow> filter P (insertBy cmp x ys) = filter P ys"
  by (induction ys) auto

lemma filter_insertBy_tie:
  assumes "P x" and "\<And>y. P y \<Longrightarrow> cmp x y \<le> 0"
  shows "filter P (insertBy cmp x ys) = x # filter P ys"
  using assms by (induction ys) auto

lemma sortBy_stable:
  assumes "\<And>x y. P x \<Longrightarrow> P y \<Longrightarrow> cmp x y \<le> 0"
  shows "filter P (sortBy cmp xs) = filter P xs"
proof (induction xs)
  case Nil
  show ?case by (simp add: sortBy_def)
next
  case (Cons x xs)
  have unfold: "sortBy cmp (x # xs) = insertBy cmp x (sortBy cmp xs)"
    by (simp add: sortBy_def)
  show ?case
  proof (cases "P x")
    case True
    then have "filter P (insertBy cmp x (sortBy cmp xs)) = x # filter P (sortBy cmp xs)"
      by (intro filter_insertBy_tie) (auto intro: assms)
    with True Cons unfold show ?thesis by simp
  next
    case False
    with Cons unfold show ?thesis
      by (simp add: filter_insertBy_other)
  qed
qed

subsection \<open>Decimal ordinals and identities\<close>

lemma show_nat_small: "n < 10 \<Longrightarrow> show_nat n = [digit n]"
  by (subst show_nat.simps) simp

lemma digit_in_digits: "n < 10 \<Longrightarrow> digit n \<in> set ''0123456789''"
  unfolding digit_def by (rule nth_mem) simp

lemma digit_not_dash: "n < 10 \<Longrightarrow> digit n \<noteq> CHR ''-''"
  using digit_in_digits [of n] by auto

lemma digit_inj: "n < 10 \<Longrightarrow> m < 10 \<Longrightarrow> digit n = digit m \<Longrightarrow> n = m"
  by (simp add: digit_def nth_eq_iff_index_eq)

lemma show_nat_not_Nil: "show_nat n \<noteq> []"
  by (subst show_nat.simps) simp

lemma show_nat_no_dash: "c \<in> set (show_nat n) \<Longrightarrow> c \<noteq> CHR ''-''"
proof (induction n rule: show_nat.induct)
  case (1 n)
  show ?case
  proof (cases "n < 10")
    case True
    with "1.prems" show ?thesis
      by (simp add: show_nat.simps [of n] digit_not_dash)
  next
    case False
    from False have "show_nat n = show_nat (n div 10) @ [digit (n mod 10)]"
      by (subst show_nat.simps) simp
    with "1.prems" have "c \<in> set (show_nat (n div 10)) \<or> c = digit (n mod 10)"
      by auto
    moreover have "digit (n mod 10) \<noteq> CHR ''-''"
      by (rule digit_not_dash) simp
    ultimately show ?thesis
      using False "1.IH" by auto
  qed
qed

lemma show_nat_inj: "show_nat n = show_nat m \<Longrightarrow> n = m"
proof (induction n arbitrary: m rule: show_nat.induct)
  case (1 n)
  show ?case
  proof (cases "n < 10")
    case small_n: True
    show ?thesis
    proof (cases "m < 10")
      case True
      with small_n "1.prems" show ?thesis
        by (simp add: show_nat.simps [of n] show_nat.simps [of m] digit_inj)
    next
      case False
      with small_n "1.prems" show ?thesis
        by (simp add: show_nat.simps [of n] show_nat.simps [of m] show_nat_not_Nil
            show_nat_not_Nil [symmetric])
    qed
  next
    case big_n: False
    show ?thesis
    proof (cases "m < 10")
      case True
      with big_n "1.prems" show ?thesis
        by (simp add: show_nat.simps [of n] show_nat.simps [of m] show_nat_not_Nil
            show_nat_not_Nil [symmetric])
    next
      case False
      with big_n "1.prems" have "show_nat (n div 10) = show_nat (m div 10)"
        and "digit (n mod 10) = digit (m mod 10)"
        by (simp_all add: show_nat.simps [of n] show_nat.simps [of m])
      with big_n "1.IH" have "n div 10 = m div 10" and "n mod 10 = m mod 10"
        by (simp_all add: digit_inj)
      then show ?thesis
        by (metis div_mult_mod_eq)
    qed
  qed
qed

text \<open>The part of an identity after its last dash.\<close>

lemma after_last_dash:
  "rev (takeWhile (\<lambda>c. c \<noteq> CHR ''-'') (rev (p @ CHR ''-'' # show_nat n))) = show_nat n"
proof -
  have "takeWhile (\<lambda>c. c \<noteq> CHR ''-'') (rev (show_nat n) @ CHR ''-'' # rev p) = rev (show_nat n)"
    by (simp add: takeWhile_tail show_nat_no_dash)
  then show ?thesis by simp
qed

lemma itemId_suffix: "\<exists>p. itemId h row idx = p @ CHR ''-'' # show_nat idx"
proof (cases "isNational h row")
  case True
  then have "itemId h row idx
      = (''NAT-'' @ toStr h (orElse (row ''NUMERO_PC'') (Str ''N/A''))) @ CHR ''-'' # show_nat idx"
    by (simp add: itemId_def Let_def)
  then show ?thesis by blast
next
  case False
  then have "itemId h row idx
      = (toStr h (row ''NUMERO_PO'') @ ''-'' @ toStr h (orElse (row ''NUMERO_PC'') (Str ''N/A'')))
          @ CHR ''-'' # show_nat idx"
    by (simp add: itemId_def Let_def)
  then show ?thesis by blast
qed

lemma map_suffix_map_filter:
  assumes "\<And>p item. F p = Some item \<Longrightarrow> g item = k (fst p)"
  shows "map g (List.map_filter F ps) = map (\<lambda>p. k (fst p)) (filter (\<lambda>p. F p \<noteq> None) ps)"
  by (induction ps) (auto simp: assms split: option.splits)

subsection \<open>Rows emitted by an import\<close>



lemma processRow_poOnlyRow:
  "processRow host0 (JObject Map.empty) (JObject Map.empty) 1698980400000 1699000000001
     poOnlyRow 0 =
   Inr (Some \<lparr>item_id = ''PO7-N/A-0'', NUMERO_SC = Undefined, NUMERO_PO = Str ''PO7'',
     NUMERO_PC = Str ''N/A'', NECESS_SC = None,
     NECESS_PC = DateMs 1699000000001, RAZAO_FORNEC = Str ''-'',
     DESCR_PROD = Str ''-'', VOLUME_PC = Str ''-'', DIAS_PARA_NECESS = 0,
     status = CRITICO, DATA_CHECK_EMBARQUE = None, isExcluded = False\<rparr>)"
  by (simp add: eval_import host0_def poOnlyRow_def)

section \<open>Claims\<close>

text \<open>
  Claim C1. For every integer \<open>d\<close> the classifier returns ATRASADO below zero, CRITICO
  on \<open>0 \<le> d < 30\<close>, ALERTA on \<open>30 \<le> d \<le> 60\<close> and PRODUCAO above 60; the boundary
  values 29, 30, 60 and 61 fall as stated, and the result is never EMBARCADO or NACIONAL.
\<close>

theorem calculateStatus_bands:
  "(d < 0 \<longrightarrow> calculateStatus d = ATRASADO)
   \<and> (0 \<le> d \<and> d < 30 \<longrightarrow> calculateStatus d = CRITICO)
   \<and> (30 \<le> d \<and> d \<le> 60 \<longrightarrow> calculateStatus d = ALERTA)
   \<and> (60 < d \<longrightarrow> calculateStatus d = PRODUCAO)
   \<and> calculateStatus 29 = CRITICO \<and> calculateStatus 30 = ALERTA
   \<and> calculateStatus 60 = ALERTA \<and> calculateStatus 61 = PRODUCAO
   \<and> calculateStatus d \<in> {ATRASADO, CRITICO, ALERTA, PRODUCAO}"
  by (simp add: calculateStatus_def)

theorem calculateStatus_bands_witness:
  "calculateStatus (- 1) = ATRASADO \<and> calculateStatus 0 = CRITICO
   \<and> calculateStatus 45 = ALERTA \<and> calculateStatus 90 = PRODUCAO"
  using calculateStatus_bands [of "- 1"] calculateStatus_bands [of 0]
    calculateStatus_bands [of 45] calculateStatus_bands [of 90]
  by simp


text \<open>
  Claim C3. For every record that is neither NACIONAL nor EMBARCADO, over a shipped
  store that does not hold the JSON text null, \<open>handleMarkShipped\<close> on its identity
  returns and makes it EMBARCADO, and \<open>handleUnmarkShipped\<close> after it returns and sets
  the status to the classification of the record's stored \<open>DIAS_PARA_NECESS\<close> (the
  handler reads no clock and leaves the day-delta as it is), clears the shipped
  timestamp and clears the shipped override of the identity. In every reachable state
  that classification is the status the record had before, and the record is back to
  its original value in every field.
\<close>

theorem mark_then_unmark_restores:
  assumes "k < length (items s)"
    and "status (items s ! k) \<noteq> NACIONAL" and "status (items s ! k) \<noteq> EMBARCADO"
    and "importflow_shipped_items (localStorage s) \<noteq> ParsedNull"
  shows "\<exists>s1 s2.
      handleMarkShipped (item_id (items s ! k)) storeIso stamp s = Inr s1
    \<and> handleUnmarkShipped (item_id (items s ! k)) s1 = Inr s2
    \<and> status (items s1 ! k) = EMBARCADO
    \<and> status (items s2 ! k) = calculateStatus (DIAS_PARA_NECESS (items s ! k))
    \<and> DIAS_PARA_NECESS (items s2 ! k) = DIAS_PARA_NECESS (items s ! k)
    \<and> DATA_CHECK_EMBARQUE (items s2 ! k) = None
    \<and> storedEntry (loadShippedMap (localStorage s2)) (item_id (items s ! k)) = None
    \<and> (reachable s \<longrightarrow>
         status (items s2 ! k) = status (items s ! k) \<and> items s2 ! k = items s ! k)"
proof -
  from assms(4) obtain s1
    where s1: "handleMarkShipped (item_id (items s ! k)) storeIso stamp s = Inr s1"
    using handler_succeeds(1) by blast
  note m = nth_handleMarkShipped [OF s1]
  from m(3) have "importflow_shipped_items (localStorage s1) \<noteq> ParsedNull"
    by (rule entries_after_save)
  then obtain s2 where s2: "handleUnmarkShipped (item_id (items s ! k)) s1 = Inr s2"
    using handler_succeeds(2) by blast
  note u = nth_handleUnmarkShipped [OF s2]
  have marked: "items s1 ! k
      = (items s ! k)\<lparr>status := EMBARCADO, DATA_CHECK_EMBARQUE := Some (stamp k)\<rparr>"
    using assms(1,2) by (simp add: m(2))
  have after: "items s2 ! k
      = (items s ! k)\<lparr>status := calculateStatus (DIAS_PARA_NECESS (items s ! k)),
                      DATA_CHECK_EMBARQUE := None\<rparr>"
    using assms(1) by (simp add: u(2) m(1) marked)
  have restored: "(items s ! k)\<lparr>status := calculateStatus (DIAS_PARA_NECESS (items s ! k)),
                      DATA_CHECK_EMBARQUE := None\<rparr> = items s ! k"
    if "reachable s"
  proof -
    from that assms(1) have "coherent (items s ! k)"
      by (simp add: reachable_coherent)
    with assms(2,3) show ?thesis
      by (simp add: coherent_def)
  qed
  have cleared: "storedEntry (loadShippedMap (localStorage s2)) (item_id (items s ! k)) = None"
    using u(3) by (rule storedEntry_after_remove)
  have "status (items s1 ! k) = EMBARCADO
    \<and> status (items s2 ! k) = calculateStatus (DIAS_PARA_NECESS (items s ! k))
    \<and> DIAS_PARA_NECESS (items s2 ! k) = DIAS_PARA_NECESS (items s ! k)
    \<and> DATA_CHECK_EMBARQUE (items s2 ! k) = None
    \<and> storedEntry (loadShippedMap (localStorage s2)) (item_id (items s ! k)) = None
    \<and> (reachable s \<longrightarrow>
         status (items s2 ! k) = status (items s ! k) \<and> items s2 ! k = items s ! k)"
    unfolding after marked using restored cleared by simp
  with s1 s2 show ?thesis by blast
qed

theorem mark_then_unmark_restores_witness:
  "status (items importedState ! 0) = CRITICO
   \<and> status (items (stateAfter importedState
        (handleMarkShipped ''PO1-PC1-0'' ''2023-11-03T08:26:40.000Z''
           (\<lambda>k. ''2023-11-03T08:26:40.001Z'') importedState)) ! 0) = EMBARCADO
   \<and> items (stateAfter importedState
        (handleUnmarkShipped ''PO1-PC1-0''
           (stateAfter importedState
              (handleMarkShipped ''PO1-PC1-0'' ''2023-11-03T08:26:40.000Z''
                 (\<lambda>k. ''2023-11-03T08:26:40.001Z'') importedState)))) ! 0
       = items importedState ! 0"
  using mark_then_unmark_restores [of 0 importedState "''2023-11-03T08:26:40.000Z''"
      "\<lambda>k. ''2023-11-03T08:26:40.001Z''"]
    reachable_importedState
  by (auto simp: items_importedState localStorage_importedState storage0_def stateAfter_def)




text \<open>
  Claim C5 (as amended). In every built record, an absent supplier-name,
  product-description or volume cell becomes the placeholder \<open>''-''\<close>; an absent
  purchase-contract number becomes \<open>''N/A''\<close>; an absent request-contract number stays
  absent, with no placeholder.
\<close>

theorem processRow_placeholders:
  assumes "processRow h sm em today now row idx = Inr (Some item)"
  shows "(row ''RAZAO_FORNEC'' = Undefined \<longrightarrow> RAZAO_FORNEC item = Str ''-'')
    \<and> (row ''DESCR_PROD'' = Undefined \<longrightarrow> DESCR_PROD item = Str ''-'')
    \<and> (row ''VOLUME_PC'' = Undefined \<longrightarrow> VOLUME_PC item = Str ''-'')
    \<and> (row ''NUMERO_PC'' = Undefined \<longrightarrow> NUMERO_PC item = Str ''N/A'')
    \<and> (row ''NUMERO_SC'' = Undefined \<longrightarrow> NUMERO_SC item = Undefined)"
proof -
  from assms obtain shipped excluded
    where "item = buildItem h today now row idx shipped excluded"
    by (auto simp: processRow_Some_iff)
  then show ?thesis
    by (simp add: buildItem_descriptive orElse_def)
qed

theorem processRow_placeholders_witness:
  "processRow host0 (JObject Map.empty) (JObject Map.empty) 1698980400000 1699000000001
     poOnlyRow 0 =
   Inr (Some \<lparr>item_id = ''PO7-N/A-0'', NUMERO_SC = Undefined, NUMERO_PO = Str ''PO7'',
     NUMERO_PC = Str ''N/A'', NECESS_SC = None,
     NECESS_PC = DateMs 1699000000001, RAZAO_FORNEC = Str ''-'',
     DESCR_PROD = Str ''-'', VOLUME_PC = Str ''-'', DIAS_PARA_NECESS = 0,
     status = CRITICO, DATA_CHECK_EMBARQUE = None, isExcluded = False\<rparr>)
   \<and> poOnlyRow ''RAZAO_FORNEC'' = Undefined \<and> poOnlyRow ''DESCR_PROD'' = Undefined
   \<and> poOnlyRow ''VOLUME_PC'' = Undefined \<and> poOnlyRow ''NUMERO_PC'' = Undefined"
  using processRow_placeholders [OF processRow_poOnlyRow]
  by (simp add: processRow_poOnlyRow) (simp add: poOnlyRow_def)

theorem processRow_placeholders_counterexample:
  "poOnlyRow ''NUMERO_PC'' = Undefined \<and> poOnlyRow ''NUMERO_SC'' = Undefined
   \<and> processExcelData host0 storage0 1699000000000 clock0 [poOnlyRow]
     = Inr [\<lparr>item_id = ''PO7-N/A-0'', NUMERO_SC = Undefined, NUMERO_PO = Str ''PO7'',
         NUMERO_PC = Str ''N/A'', NECESS_SC = None, NECESS_PC = DateMs 1699000000001,
         RAZAO_FORNEC = Str ''-'', DESCR_PROD = Str ''-'', VOLUME_PC = Str ''-'',
         DIAS_PARA_NECESS = 0, status = CRITICO, DATA_CHECK_EMBARQUE = None,
         isExcluded = False\<rparr>]
   \<and> Str ''N/A'' \<noteq> Str ''-'' \<and> Undefined \<noteq> Str ''-''"
  by (simp add: eval_import host0_def storage0_def poOnlyRow_def)

text \<open>
  Claim C6. The aggregator counts non-excluded records only: each per-status count is
  the number of non-excluded records of that status, \<open>totalImported\<close> the number of
  non-excluded records that are not NACIONAL, \<open>totalNational\<close> the number of
  non-excluded NACIONAL records, and \<open>followUpNeeded\<close> the sum of the CRITICO and
  ALERTA counts. For the statuses ATRASADO, ATRASADO, CRITICO, NACIONAL, NACIONAL with
  none excluded it yields atrasado 2, critico 1, totalImported 3, totalNational 2 and
  followUpNeeded 1.
\<close>

theorem stats_counts:
  "atrasado (stats its) = length (filter (\<lambda>i. \<not> isExcluded i \<and> status i = ATRASADO) its)
   \<and> critico (stats its) = length (filter (\<lambda>i. \<not> isExcluded i \<and> status i = CRITICO) its)
   \<and> alerta (stats its) = length (filter (\<lambda>i. \<not> isExcluded i \<and> status i = ALERTA) its)
   \<and> producao (stats its) = length (filter (\<lambda>i. \<not> isExcluded i \<and> status i = PRODUCAO) its)
   \<and> embarcado (stats its) = length (filter (\<lambda>i. \<not> isExcluded i \<and> status i = EMBARCADO) its)
   \<and> totalImported (stats its) = length (filter (\<lambda>i. \<not> isExcluded i \<and> status i \<noteq> NACIONAL) its)
   \<and> totalNational (stats its) = length (filter (\<lambda>i. \<not> isExcluded i \<and> status i = NACIONAL) its)
   \<and> followUpNeeded (stats its) = critico (stats its) + alerta (stats its)
   \<and> (map status its = [ATRASADO, ATRASADO, CRITICO, NACIONAL, NACIONAL]
        \<and> list_all (\<lambda>i. \<not> isExcluded i) its
      \<longrightarrow> atrasado (stats its) = 2 \<and> critico (stats its) = 1 \<and> totalImported (stats its) = 3
          \<and> totalNational (stats its) = 2 \<and> followUpNeeded (stats its) = 1)"
proof -
  have conj_filter: "\<And>P. filter P (activeItems its) = filter (\<lambda>i. \<not> isExcluded i \<and> P i) its"
    by (auto simp: activeItems_def intro: filter_cong)
  have general: "atrasado (stats its) = length (filter (\<lambda>i. \<not> isExcluded i \<and> status i = ATRASADO) its)
   \<and> critico (stats its) = length (filter (\<lambda>i. \<not> isExcluded i \<and> status i = CRITICO) its)
   \<and> alerta (stats its) = length (filter (\<lambda>i. \<not> isExcluded i \<and> status i = ALERTA) its)
   \<and> producao (stats its) = length (filter (\<lambda>i. \<not> isExcluded i \<and> status i = PRODUCAO) its)
   \<and> embarcado (stats its) = length (filter (\<lambda>i. \<not> isExcluded i \<and> status i = EMBARCADO) its)
   \<and> totalImported (stats its) = length (filter (\<lambda>i. \<not> isExcluded i \<and> status i \<noteq> NACIONAL) its)
   \<and> totalNational (stats its) = length (filter (\<lambda>i. \<not> isExcluded i \<and> status i = NACIONAL) its)
   \<and> followUpNeeded (stats its) = critico (stats its) + alerta (stats its)"
    by (simp add: stats_def foldl_tally initial_def length_filter_disj conj_filter)
  have example: "atrasado (stats its) = 2 \<and> critico (stats its) = 1 \<and> totalImported (stats its) = 3
          \<and> totalNational (stats its) = 2 \<and> followUpNeeded (stats its) = 1"
    if st: "map status its = [ATRASADO, ATRASADO, CRITICO, NACIONAL, NACIONAL]"
      and ex: "list_all (\<lambda>i. \<not> isExcluded i) its"
  proof -
    from st obtain a b c d e where its: "its = [a, b, c, d, e]"
      and "status a = ATRASADO" "status b = ATRASADO" "status c = CRITICO"
        "status d = NACIONAL" "status e = NACIONAL"
      by (auto simp: map_eq_Cons_conv)
    with ex have "length (filter (\<lambda>i. \<not> isExcluded i \<and> status i = ATRASADO) its) = 2"
      and "length (filter (\<lambda>i. \<not> isExcluded i \<and> status i = CRITICO) its) = 1"
      and "length (filter (\<lambda>i. \<not> isExcluded i \<and> status i = ALERTA) its) = 0"
      and "length (filter (\<lambda>i. \<not> isExcluded i \<and> status i \<noteq> NACIONAL) its) = 3"
      and "length (filter (\<lambda>i. \<not> isExcluded i \<and> status i = NACIONAL) its) = 2"
      by simp_all
    with general show ?thesis
      by simp
  qed
  from example
  have "map status its = [ATRASADO, ATRASADO, CRITICO, NACIONAL, NACIONAL]
        \<and> list_all (\<lambda>i. \<not> isExcluded i) its
      \<longrightarrow> atrasado (stats its) = 2 \<and> critico (stats its) = 1 \<and> totalImported (stats its) = 3
          \<and> totalNational (stats its) = 2 \<and> followUpNeeded (stats its) = 1"
    by (intro impI) (elim conjE)
  with general show ?thesis
    by (simp only: simp_thms)
qed

theorem stats_counts_witness:
  "atrasado (stats [sampleItem ATRASADO (- 5), sampleItem ATRASADO (- 1), sampleItem CRITICO 3,
       sampleItem NACIONAL 0, sampleItem NACIONAL 40]) = 2
   \<and> critico (stats [sampleItem ATRASADO (- 5), sampleItem ATRASADO (- 1), sampleItem CRITICO 3,
       sampleItem NACIONAL 0, sampleItem NACIONAL 40]) = 1
   \<and> totalImported (stats [sampleItem ATRASADO (- 5), sampleItem ATRASADO (- 1), sampleItem CRITICO 3,
       sampleItem NACIONAL 0, sampleItem NACIONAL 40]) = 3
   \<and> totalNational (stats [sampleItem ATRASADO (- 5), sampleItem ATRASADO (- 1), sampleItem CRITICO 3,
       sampleItem NACIONAL 0, sampleItem NACIONAL 40]) = 2
   \<and> followUpNeeded (stats [sampleItem ATRASADO (- 5), sampleItem ATRASADO (- 1), sampleItem CRITICO 3,
       sampleItem NACIONAL 0, sampleItem NACIONAL 40]) = 1"
  using stats_counts [of "[sampleItem ATRASADO (- 5), sampleItem ATRASADO (- 1),
       sampleItem CRITICO 3, sampleItem NACIONAL 0, sampleItem NACIONAL 40]"]
  by (simp add: sampleItem_def)

text \<open>
  Claim C7. The sort orders primarily by the fixed priority ATRASADO 1, CRITICO 2,
  ALERTA 3, PRODUCAO 4, EMBARCADO 5, NACIONAL 6, with 99 for any status name outside
  the table, and secondarily by \<open>DIAS_PARA_NECESS\<close> ascending: the result is sorted
  for that lexicographic order, is a permutation of the input, and keeps records that
  tie on both keys in their input order. Records with (ALERTA, 45), (ATRASADO, -3),
  (CRITICO, 10), (PRODUCAO, 90) come out as ATRASADO, CRITICO, ALERTA, PRODUCAO.
\<close>

theorem sortItems_contract:
  "priorityOf (statusName ATRASADO) = 1 \<and> priorityOf (statusName CRITICO) = 2
   \<and> priorityOf (statusName ALERTA) = 3 \<and> priorityOf (statusName PRODUCAO) = 4
   \<and> priorityOf (statusName EMBARCADO) = 5 \<and> priorityOf (statusName NACIONAL) = 6
   \<and> (k \<notin> {''ATRASADO'', ''CRITICO'', ''ALERTA'', ''PRODUCAO'', ''EMBARCADO'', ''NACIONAL''}
        \<longrightarrow> priorityOf k = 99)
   \<and> sorted_wrt (\<lambda>a b. priorityOf (statusName (status a)) < priorityOf (statusName (status b))
          \<or> (priorityOf (statusName (status a)) = priorityOf (statusName (status b))
              \<and> DIAS_PARA_NECESS a \<le> DIAS_PARA_NECESS b)) (sortItems xs)
   \<and> mset (sortItems xs) = mset xs
   \<and> filter (\<lambda>i. priorityOf (statusName (status i)) = p \<and> DIAS_PARA_NECESS i = d) (sortItems xs)
       = filter (\<lambda>i. priorityOf (statusName (status i)) = p \<and> DIAS_PARA_NECESS i = d) xs
   \<and> (map (\<lambda>i. (status i, DIAS_PARA_NECESS i)) xs
         = [(ALERTA, 45), (ATRASADO, - 3), (CRITICO, 10), (PRODUCAO, 90)]
       \<longrightarrow> map (\<lambda>i. (status i, DIAS_PARA_NECESS i)) (sortItems xs)
         = [(ATRASADO, - 3), (CRITICO, 10), (ALERTA, 45), (PRODUCAO, 90)])"
proof -
  have table: "priorityOf (statusName ATRASADO) = 1 \<and> priorityOf (statusName CRITICO) = 2
   \<and> priorityOf (statusName ALERTA) = 3 \<and> priorityOf (statusName PRODUCAO) = 4
   \<and> priorityOf (statusName EMBARCADO) = 5 \<and> priorityOf (statusName NACIONAL) = 6"
    by (simp add: priorityOf_table)
  have unmapped:
    "k \<notin> {''ATRASADO'', ''CRITICO'', ''ALERTA'', ''PRODUCAO'', ''EMBARCADO'', ''NACIONAL''}
        \<longrightarrow> priorityOf k = 99"
    by (intro impI) (rule priorityOf_unmapped)
  have "sorted_wrt (\<lambda>a b. compareItems a b \<le> 0) (sortItems xs)"
    unfolding sortItems_def
  proof (rule sorted_sortBy)
    fix a b :: ImportItem
    assume "\<not> compareItems a b \<le> 0"
    then show "compareItems b a \<le> 0"
      unfolding compareItems_le_iff by linarith
  next
    fix a b c :: ImportItem
    assume "compareItems a b \<le> 0" and "compareItems b c \<le> 0"
    then show "compareItems a c \<le> 0"
      unfolding compareItems_le_iff by linarith
  qed
  then have sorted:
    "sorted_wrt (\<lambda>a b. priorityOf (statusName (status a)) < priorityOf (statusName (status b))
          \<or> (priorityOf (statusName (status a)) = priorityOf (statusName (status b))
              \<and> DIAS_PARA_NECESS a \<le> DIAS_PARA_NECESS b)) (sortItems xs)"
    unfolding compareItems_le_iff .
  have perm: "mset (sortItems xs) = mset xs"
    by (simp add: sortItems_def mset_sortBy)
  have stable: "filter (\<lambda>i. priorityOf (statusName (status i)) = p \<and> DIAS_PARA_NECESS i = d)
        (sortItems xs)
       = filter (\<lambda>i. priorityOf (statusName (status i)) = p \<and> DIAS_PARA_NECESS i = d) xs"
    unfolding sortItems_def
    by (rule sortBy_stable) (simp add: compareItems_le_iff)
  have example: "map (\<lambda>i. (status i, DIAS_PARA_NECESS i)) xs
         = [(ALERTA, 45), (ATRASADO, - 3), (CRITICO, 10), (PRODUCAO, 90)]
       \<longrightarrow> map (\<lambda>i. (status i, DIAS_PARA_NECESS i)) (sortItems xs)
         = [(ATRASADO, - 3), (CRITICO, 10), (ALERTA, 45), (PRODUCAO, 90)]"
  proof
    assume "map (\<lambda>i. (status i, DIAS_PARA_NECESS i)) xs
         = [(ALERTA, 45), (ATRASADO, - 3), (CRITICO, 10), (PRODUCAO, 90)]"
    then obtain a b c e where "xs = [a, b, c, e]"
      "status a = ALERTA" "DIAS_PARA_NECESS a = 45"
      "status b = ATRASADO" "DIAS_PARA_NECESS b = - 3"
      "status c = CRITICO" "DIAS_PARA_NECESS c = 10"
      "status e = PRODUCAO" "DIAS_PARA_NECESS e = 90"
      by (auto simp: map_eq_Cons_conv)
    then show "map (\<lambda>i. (status i, DIAS_PARA_NECESS i)) (sortItems xs)
         = [(ATRASADO, - 3), (CRITICO, 10), (ALERTA, 45), (PRODUCAO, 90)]"
      by (simp add: sortItems_def sortBy_def compareItems_def priorityOf_table)
  qed
  from table unmapped sorted perm stable example show ?thesis
    by (simp only: simp_thms)
qed

theorem sortItems_contract_witness:
  "priorityOf ''PENDENTE'' = 99
   \<and> map (\<lambda>i. (status i, DIAS_PARA_NECESS i))
        (sortItems [sampleItem ALERTA 45, sampleItem ATRASADO (- 3), sampleItem CRITICO 10,
           sampleItem PRODUCAO 90])
     = [(ATRASADO, - 3), (CRITICO, 10), (ALERTA, 45), (PRODUCAO, 90)]"
  using sortItems_contract [of "''PENDENTE''" "[sampleItem ALERTA 45, sampleItem ATRASADO (- 3),
      sampleItem CRITICO 10, sampleItem PRODUCAO 90]" 0 0]
  by (simp add: sampleItem_def)

text \<open>
  Claim C8. For every record of the collection, over an excluded store that does not
  hold the JSON text null, \<open>handleExclude\<close> on its identity returns and changes nothing
  of the record but \<open>isExcluded\<close>, which becomes true, and leaves the shipped store
  alone; \<open>handleRestore\<close> after it returns and yields the record with \<open>isExcluded\<close>
  false and every other field as it was. For a record that is not excluded, the only
  kind on which the table offers the Exclude action, that is exactly the original
  record. Over a store holding null the handler throws before it changes anything.
\<close>

theorem exclude_restore_frame:
  assumes "k < length (items s)"
  shows "(importflow_excluded_items (localStorage s) \<noteq> ParsedNull \<longrightarrow>
      (\<exists>s1 s2.
          handleExclude (item_id (items s ! k)) nowIso s = Inr s1
        \<and> items s1 ! k = (items s ! k)\<lparr>isExcluded := True\<rparr>
        \<and> length (items s1) = length (items s)
        \<and> importflow_shipped_items (localStorage s1) = importflow_shipped_items (localStorage s)
        \<and> handleRestore (item_id (items s ! k)) s1 = Inr s2
        \<and> items s2 ! k = (items s ! k)\<lparr>isExcluded := False\<rparr>
        \<and> (\<not> isExcluded (items s ! k) \<longrightarrow> items s2 ! k = items s ! k)))
    \<and> (importflow_excluded_items (localStorage s) = ParsedNull \<longrightarrow>
        handleExclude (item_id (items s ! k)) nowIso s = Inl TypeError)"
proof (intro conjI impI)
  assume ok: "importflow_excluded_items (localStorage s) \<noteq> ParsedNull"
  then obtain s1 where s1: "handleExclude (item_id (items s ! k)) nowIso s = Inr s1"
    using handler_succeeds(3) by blast
  note e = nth_handleExclude [OF s1]
  from e(3) have "importflow_excluded_items (localStorage s1) \<noteq> ParsedNull"
    and shipped: "importflow_shipped_items (localStorage s1) = importflow_shipped_items (localStorage s)"
    by (rule entries_after_save)+
  then obtain s2 where s2: "handleRestore (item_id (items s ! k)) s1 = Inr s2"
    using handler_succeeds(4) by blast
  note r = nth_handleRestore [OF s2]
  have "items s1 ! k = (items s ! k)\<lparr>isExcluded := True\<rparr>"
    using assms by (simp add: e(2))
  moreover from this have "items s2 ! k = (items s ! k)\<lparr>isExcluded := False\<rparr>"
    using assms by (simp add: r(2) e(1))
  ultimately show "\<exists>s1 s2.
          handleExclude (item_id (items s ! k)) nowIso s = Inr s1
        \<and> items s1 ! k = (items s ! k)\<lparr>isExcluded := True\<rparr>
        \<and> length (items s1) = length (items s)
        \<and> importflow_shipped_items (localStorage s1) = importflow_shipped_items (localStorage s)
        \<and> handleRestore (item_id (items s ! k)) s1 = Inr s2
        \<and> items s2 ! k = (items s ! k)\<lparr>isExcluded := False\<rparr>
        \<and> (\<not> isExcluded (items s ! k) \<longrightarrow> items s2 ! k = items s ! k)"
    using s1 s2 e(1) shipped by auto
next
  assume "importflow_excluded_items (localStorage s) = ParsedNull"
  then show "handleExclude (item_id (items s ! k)) nowIso s = Inl TypeError"
    by (rule handler_throws)
qed

theorem exclude_restore_frame_witness:
  "\<not> isExcluded (items importedState ! 0)
   \<and> isExcluded (items (stateAfter importedState
        (handleExclude ''PO1-PC1-0'' ''2023-11-03T08:26:40.000Z'' importedState)) ! 0)
   \<and> items (stateAfter importedState
        (handleRestore ''PO1-PC1-0''
          (stateAfter importedState
            (handleExclude ''PO1-PC1-0'' ''2023-11-03T08:26:40.000Z'' importedState)))) ! 0
     = items importedState ! 0
   \<and> handleExclude ''PO1-PC1-0'' ''2023-11-03T08:26:40.000Z'' nullExcludedState = Inl TypeError"
  using exclude_restore_frame [of 0 importedState "''2023-11-03T08:26:40.000Z''"]
  by (auto simp: items_importedState localStorage_importedState storage0_def stateAfter_def
      nullExcludedState_def handleExclude_def saveExcludedItem_def loadExcludedMap_def)

text \<open>
  Claim C9. Within one import the identities of the emitted records are pairwise
  distinct, whatever the purchase-order and purchase-contract cells hold and whether a
  record is national or imported: every identity ends with a dash and the decimal
  zero-based index of its row, and an index is rendered without a dash and injectively.
  The import returns whenever neither store entry holds the JSON text null.
\<close>

theorem processExcelData_ids_distinct:
  "(processExcelData h ls t0 clock jsonData = Inr its \<longrightarrow>
      distinct (map item_id its)
      \<and> (\<forall>item \<in> set its.
           \<exists>idx p. idx < length jsonData \<and> item_id item = p @ ''-'' @ show_nat idx))
   \<and> (importflow_shipped_items ls \<noteq> ParsedNull \<and> importflow_excluded_items ls \<noteq> ParsedNull
        \<longrightarrow> (\<exists>data. processExcelData h ls t0 clock jsonData = Inr data))"
proof (intro conjI impI)
  assume "importflow_shipped_items ls \<noteq> ParsedNull \<and> importflow_excluded_items ls \<noteq> ParsedNull"
  then show "\<exists>data. processExcelData h ls t0 clock jsonData = Inr data"
    by (simp add: processExcelData_succeeds)
next
  assume run: "processExcelData h ls t0 clock jsonData = Inr its"
  show "\<forall>item \<in> set its.
        \<exists>idx p. idx < length jsonData \<and> item_id item = p @ ''-'' @ show_nat idx"
  proof
    fix item
    assume "item \<in> set its"
    then obtain idx shipped excluded where "idx < length jsonData"
      and "item = buildItem h (startOfDay (tzOffset h) t0) (clock idx) (jsonData ! idx) idx
          shipped excluded"
      by (auto simp: in_processExcelData [OF run] processRow_Some_iff)
    moreover obtain p where "itemId h (jsonData ! idx) idx = p @ CHR ''-'' # show_nat idx"
      using itemId_suffix by blast
    ultimately show "\<exists>idx p. idx < length jsonData \<and> item_id item = p @ ''-'' @ show_nat idx"
      by (auto simp: buildItem_fields)
  qed
next
  assume run: "processExcelData h ls t0 clock jsonData = Inr its"
  show "distinct (map item_id its)"
  proof -
    define F where "F = (\<lambda>p. case (case p of (idx, row) \<Rightarrow>
        processRow h (loadShippedMap ls) (loadExcludedMap ls)
          (startOfDay (tzOffset h) t0) (clock idx) row idx) of Inl e \<Rightarrow> None | Inr r \<Rightarrow> r)"
    define g :: "ImportItem \<Rightarrow> string"
      where "g = (\<lambda>item. rev (takeWhile (\<lambda>c. c \<noteq> CHR ''-'') (rev (item_id item))))"
    define ps where "ps = filter (\<lambda>p. F p \<noteq> None) (List.enumerate 0 jsonData)"
    have suffix: "g item = show_nat (fst p)" if "F p = Some item" for p item
    proof -
      obtain idx row where p: "p = (idx, row)" by (cases p)
      with that have "processRow h (loadShippedMap ls) (loadExcludedMap ls)
          (startOfDay (tzOffset h) t0) (clock idx) row idx = Inr (Some item)"
        by (auto simp: F_def split: sum.splits)
      then have "item_id item = itemId h row idx"
        by (auto simp: processRow_Some_iff buildItem_fields)
      moreover obtain q where "itemId h row idx = q @ CHR ''-'' # show_nat idx"
        using itemId_suffix by blast
      ultimately have "g item = show_nat idx"
        unfolding g_def by (simp only: after_last_dash)
      with p show ?thesis
        by simp
    qed
    have items: "its = List.map_filter F (List.enumerate 0 jsonData)"
      unfolding F_def using run
      by (intro collect_Inr) (simp add: processExcelData_def Let_def)
    have "map g its = map show_nat (map fst ps)"
      unfolding items ps_def
      by (simp add: map_suffix_map_filter [where F = F and g = g and k = show_nat, OF suffix])
    moreover have "distinct (map fst ps)"
      unfolding ps_def by (rule distinct_map_filter) simp
    then have "distinct (map show_nat (map fst ps))"
      by (simp add: distinct_map inj_on_def show_nat_inj del: map_map)
    ultimately have "distinct (map g its)"
      by simp
    moreover have "map g its
        = map (\<lambda>s. rev (takeWhile (\<lambda>c. c \<noteq> CHR ''-'') (rev s))) (map item_id its)"
      by (simp add: g_def)
    ultimately show ?thesis
      by (simp add: distinct_map del: map_map)
  qed
qed

theorem processExcelData_ids_distinct_witness:
  "map_sum (\<lambda>e. e) (map item_id) (processExcelData host0 storage0 1699000000000 clock0
      [importedRow, importedRow, nationalRow, nationalRow])
     = Inr [''PO1-PC1-0'', ''PO1-PC1-1'', ''NAT-PC9-2'', ''NAT-PC9-3'']
   \<and> distinct [''PO1-PC1-0'', ''PO1-PC1-1'', ''NAT-PC9-2'', ''NAT-PC9-3'']"
  using processExcelData_ids_distinct [of host0 storage0 1699000000000 clock0
      "[importedRow, importedRow, nationalRow, nationalRow]"]
  by (simp add: eval_import show_nat_small digit_def host0_def storage0_def importedRow_def
      nationalRow_def)

text \<open>
  Claim C10 (as amended). When no record of the collection has the identity and the
  excluded store does not hold the JSON text null, \<open>handleExclude\<close> returns and leaves
  the collection as it is; for every identity other than \<open>__proto__\<close> it stores an
  entry for the identity in the excluded override store; and every record that a
  following import builds with that identity has \<open>isExcluded\<close> true. That import
  returns whenever the shipped store does not hold null either.
\<close>

theorem exclude_unknown_id_persists:
  assumes "\<forall>item \<in> set (items s). item_id item \<noteq> ident"
    and "importflow_excluded_items (localStorage s) \<noteq> ParsedNull"
  shows "\<exists>s1.
      handleExclude ident nowIso s = Inr s1
    \<and> items s1 = items s
    \<and> (ident \<noteq> ''__proto__'' \<longrightarrow>
         storedEntry (loadExcludedMap (localStorage s1)) ident = Some \<lparr>date = nowIso\<rparr>)
    \<and> (importflow_shipped_items (localStorage s) \<noteq> ParsedNull \<longrightarrow>
         (\<exists>data. processExcelData h (localStorage s1) t0 clock rows = Inr data))
    \<and> (\<forall>data. processExcelData h (localStorage s1) t0 clock rows = Inr data \<longrightarrow>
         items (handleFileUpload h t0 clock (Some rows) s1) = data
         \<and> (\<forall>item \<in> set data. item_id item = ident \<longrightarrow> isExcluded item))"
proof -
  from assms(2) obtain s1 where s1: "handleExclude ident nowIso s = Inr s1"
    using handler_succeeds(3) by blast
  note e = nth_handleExclude [OF s1]
  from s1 assms(1) have same: "items s1 = items s"
    by (auto simp: handleExclude_Inr map_idI)
  from e(3) obtain m where m: "loadExcludedMap (localStorage s) = JObject m"
    and ls1: "localStorage s1 = (localStorage s)\<lparr>importflow_excluded_items :=
        Parsed (setProp m ident \<lparr>date = nowIso\<rparr>)\<rparr>"
    by (auto simp: saveExcludedItem_Inr)
  have loaded: "loadExcludedMap (localStorage s1) = JObject (setProp m ident \<lparr>date = nowIso\<rparr>)"
    by (simp add: ls1 loadExcludedMap_def)
  have stored: "storedEntry (loadExcludedMap (localStorage s1)) ident = Some \<lparr>date = nowIso\<rparr>"
    if "ident \<noteq> ''__proto__''"
    using that by (simp add: loaded storedEntry_def setProp_def)
  have truthy: "truthyProp (readProp (setProp m ident \<lparr>date = nowIso\<rparr>) ident)"
    by (simp add: readProp_def setProp_def objectPrototypeKeys_def)
  have runs: "\<exists>data. processExcelData h (localStorage s1) t0 clock rows = Inr data"
    if "importflow_shipped_items (localStorage s) \<noteq> ParsedNull"
    using that e(3) by (intro processExcelData_succeeds) (simp_all add: entries_after_save)
  have later: "items (handleFileUpload h t0 clock (Some rows) s1) = data
         \<and> (\<forall>item \<in> set data. item_id item = ident \<longrightarrow> isExcluded item)"
    if run: "processExcelData h (localStorage s1) t0 clock rows = Inr data" for data
  proof
    show "items (handleFileUpload h t0 clock (Some rows) s1) = data"
      by (simp add: handleFileUpload_def run)
    show "\<forall>item \<in> set data. item_id item = ident \<longrightarrow> isExcluded item"
    proof (intro ballI impI)
      fix item
      assume "item \<in> set data" and "item_id item = ident"
      then obtain idx row excluded shipped
        where "getProp (loadExcludedMap (localStorage s1)) (itemId h row idx) = Inr excluded"
          and "item = buildItem h (startOfDay (tzOffset h) t0) (clock idx) row idx shipped excluded"
        by (auto simp: in_processExcelData [OF run] processRow_Some_iff)
      with \<open>item_id item = ident\<close> truthy show "isExcluded item"
        by (auto simp: buildItem_fields loaded getProp_def)
    qed
  qed
  from s1 same stored runs later show ?thesis
    by blast
qed

theorem exclude_unknown_id_persists_witness:
  "map item_id (items nationalState) = [''NAT-PC9-0'']
   \<and> handleExclude ''PO1-PC1-0'' ''2023-11-03T08:26:40.000Z'' nationalState
       = Inr \<lparr>items = items nationalState,
              localStorage = \<lparr>importflow_shipped_items = Missing,
                importflow_excluded_items =
                  Parsed [''PO1-PC1-0'' \<mapsto> \<lparr>date = ''2023-11-03T08:26:40.000Z''\<rparr>]\<rparr>\<rparr>
   \<and> processExcelData host0
        \<lparr>importflow_shipped_items = Missing,
         importflow_excluded_items =
           Parsed [''PO1-PC1-0'' \<mapsto> \<lparr>date = ''2023-11-03T08:26:40.000Z''\<rparr>]\<rparr>
        1699000000000 clock0 [importedRow]
       = Inr [\<lparr>item_id = ''PO1-PC1-0'', NUMERO_SC = Undefined, NUMERO_PO = Str ''PO1'',
           NUMERO_PC = Str ''PC1'', NECESS_SC = None, NECESS_PC = DateMs 1700000000000,
           RAZAO_FORNEC = Str ''-'', DESCR_PROD = Str ''-'', VOLUME_PC = Str ''-'',
           DIAS_PARA_NECESS = 11, status = CRITICO, DATA_CHECK_EMBARQUE = None,
           isExcluded = True\<rparr>]"
  using exclude_unknown_id_persists [of nationalState "''PO1-PC1-0''"
      "''2023-11-03T08:26:40.000Z''" host0 1699000000000 clock0 "[importedRow]"]
  by (simp add: items_nationalState localStorage_nationalState handleExclude_def
      saveExcludedItem_def setProp_def eval_import host0_def storage0_def importedRow_def)

theorem exclude_not_persisted_counterexample:
  "handleExclude ''__proto__'' ''2023-11-03T08:26:40.000Z'' state0
     = Inr \<lparr>items = [],
            localStorage = \<lparr>importflow_shipped_items = Missing,
              importflow_excluded_items = Parsed Map.empty\<rparr>\<rparr>
   \<and> storedEntry (JObject Map.empty) ''__proto__'' = None
   \<and> handleExclude ''PO1-PC1-0'' ''2023-11-03T08:26:40.000Z'' nullExcludedState = Inl TypeError
   \<and> stateAfter nullExcludedState
        (handleExclude ''PO1-PC1-0'' ''2023-11-03T08:26:40.000Z'' nullExcludedState)
       = nullExcludedState"
  by (simp add: handleExclude_def saveExcludedItem_def loadExcludedMap_def setProp_def
      state0_def storage0_def nullExcludedState_def storedEntry_def stateAfter_def)

end
